theory Spec2Isabelle
  imports Main "HOL-Library.Sublist"
begin

section \<open>Strings and the fragment of Python's \<open>re\<close> that open-mr.py uses\<close>

text \<open>
  The script applies three regular expressions, each a sequence of literal characters and
  greedy starred character classes, one of them with a capture group:
  \<^verbatim>\<open>TCRM-[0-9]*\<close>, \<^verbatim>\<open>/([a-zA-Z0-9\-]*)\.git\<close> and
  \<^verbatim>\<open>\/([a-zA-Z\-]*)\/-\/merge_requests\<close>.
  A pattern is kept as the list of its items in the order of the pattern text. A character
  class is the list of its ranges (a single character is the range from itself to itself).
\<close>

type_synonym char_class = "(char \<times> char) list"

datatype item = Lit char | Star char_class | GOpen | GClose

fun in_class :: "char \<Rightarrow> char_class \<Rightarrow> bool" where
  "in_class c [] = False"
| "in_class c ((lo, hi) # rs) =
     (((of_char lo :: nat) \<le> of_char c \<and> (of_char c :: nat) \<le> of_char hi) \<or> in_class c rs)"

definition lits :: "string \<Rightarrow> item list" where
  "lits s = map Lit s"

text \<open>
  The backtracking matcher of \<open>re\<close>, anchored at the current position. \<open>i\<close> is the
  index of the next character in the subject string, \<open>b\<close> and \<open>e\<close> are the start and end
  of capture group 1 once its parentheses have been passed. A greedy star first tries to
  take one more character of its class and falls back to the rest of the pattern when that
  attempt fails. The result is the end of the match and the span of the group.
\<close>

fun rmatch :: "item list \<Rightarrow> string \<Rightarrow> nat \<Rightarrow> nat option \<Rightarrow> nat option
    \<Rightarrow> (nat \<times> nat option \<times> nat option) option" where
  "rmatch [] s i b e = Some (i, b, e)"
| "rmatch (Lit c # r) [] i b e = None"
| "rmatch (Lit c # r) (x # xs) i b e = (if x = c then rmatch r xs (Suc i) b e else None)"
| "rmatch (GOpen # r) s i b e = rmatch r s i (Some i) e"
| "rmatch (GClose # r) s i b e = rmatch r s i b (Some i)"
| "rmatch (Star cls # r) [] i b e = rmatch r [] i b e"
| "rmatch (Star cls # r) (x # xs) i b e =
     (if in_class x cls then
        (case rmatch (Star cls # r) xs (Suc i) b e of
           Some m \<Rightarrow> Some m
         | None \<Rightarrow> rmatch r (x # xs) i b e)
      else rmatch r (x # xs) i b e)"

text \<open>A match object: the subject string, the span of the whole match, the span of group 1.\<close>

record match_obj =
  subject :: string
  m_start :: nat
  m_end :: nat
  g_start :: "nat option"
  g_end :: "nat option"

definition mk_match :: "string \<Rightarrow> nat \<Rightarrow> (nat \<times> nat option \<times> nat option) \<Rightarrow> match_obj" where
  "mk_match s k r = (case r of (n, b, e) \<Rightarrow>
     \<lparr>subject = s, m_start = k, m_end = n, g_start = b, g_end = e\<rparr>)"

text \<open>\<^verbatim>\<open>re.match(pattern, s)\<close>: the pattern must match at index 0.\<close>

definition re_match :: "item list \<Rightarrow> string \<Rightarrow> match_obj option" where
  "re_match p s = map_option (mk_match s 0) (rmatch p s 0 None None)"

text \<open>\<^verbatim>\<open>re.search(pattern, s)\<close>: the leftmost index at which the pattern matches;
  \<open>search_from p s rest k\<close> has \<open>rest\<close> the suffix of \<open>s\<close> from index \<open>k\<close> on.\<close>

fun search_from :: "item list \<Rightarrow> string \<Rightarrow> string \<Rightarrow> nat \<Rightarrow> match_obj option" where
  "search_from p s [] k = map_option (mk_match s k) (rmatch p [] k None None)"
| "search_from p s (x # xs) k =
     (case rmatch p (x # xs) k None None of
        Some r \<Rightarrow> Some (mk_match s k r)
      | None \<Rightarrow> search_from p s xs (Suc k))"

definition re_search :: "item list \<Rightarrow> string \<Rightarrow> match_obj option" where
  "re_search p s = search_from p s s 0"

text \<open>\<^verbatim>\<open>m.group()\<close> and \<^verbatim>\<open>m.group(1)\<close> (\<open>None\<close> when the group took no part).\<close>

definition group0 :: "match_obj \<Rightarrow> string" where
  "group0 m = take (m_end m - m_start m) (drop (m_start m) (subject m))"

definition group1 :: "match_obj \<Rightarrow> string option" where
  "group1 m = (case (g_start m, g_end m) of
      (Some b, Some e) \<Rightarrow> Some (take (e - b) (drop b (subject m)))
    | _ \<Rightarrow> None)"

definition digit_class :: char_class where
  "digit_class = [(CHR ''0'', CHR ''9'')]"

definition TASK_NAME_REGEX :: "item list" where
  "TASK_NAME_REGEX = lits ''TCRM-'' @ [Star digit_class]"

text \<open>The class \<^verbatim>\<open>[a-zA-Z\-]\<close> of \<open>get_service_name_from\<close>.\<close>

definition service_class :: char_class where
  "service_class = [(CHR ''a'', CHR ''z''), (CHR ''A'', CHR ''Z''), (CHR ''-'', CHR ''-'')]"

definition SERVICE_NAME_REGEX :: "item list" where
  "SERVICE_NAME_REGEX =
     [Lit CHR ''/'', GOpen, Star service_class, GClose] @ lits ''/-/merge_requests''"

text \<open>The class \<^verbatim>\<open>[a-zA-Z0-9\-]\<close> of \<open>get_project_id\<close>.\<close>

definition project_class :: char_class where
  "project_class =
     [(CHR ''a'', CHR ''z''), (CHR ''A'', CHR ''Z''), (CHR ''0'', CHR ''9''), (CHR ''-'', CHR ''-'')]"

definition PROJECT_NAME_REGEX :: "item list" where
  "PROJECT_NAME_REGEX =
     [Lit CHR ''/'', GOpen, Star project_class, GClose] @ lits ''.git''"

abbreviation NL :: string where
  "NL \<equiv> [CHR 0x0A]"

text \<open>\<^verbatim>\<open>s.strip('\n')\<close>: leading and trailing newlines removed.\<close>

definition strip_nl :: "string \<Rightarrow> string" where
  "strip_nl s = rev (dropWhile (\<lambda>c. c = CHR 0x0A) (rev (dropWhile (\<lambda>c. c = CHR 0x0A) s)))"

text \<open>\<^verbatim>\<open>str(n)\<close> for an integer.\<close>

fun str_nat :: "nat \<Rightarrow> string" where
  "str_nat n =
     (if n < 10 then [char_of (48 + n)] else str_nat (n div 10) @ [char_of (48 + n mod 10)])"

declare str_nat.simps [simp del]

definition str_int :: "int \<Rightarrow> string" where
  "str_int n = (if n < 0 then ''-'' @ str_nat (nat (- n)) else str_nat (nat n))"

section \<open>Values, exceptions and the outside world\<close>

text \<open>A Python float. The script computes nothing with one, so nothing is said about them.\<close>

typedecl pyfloat

text \<open>
  A decoded JSON document as \<^verbatim>\<open>json.load\<close> returns it: \<open>JNull\<close> is Python's \<open>None\<close>,
  \<open>JNum\<close> an \<open>int\<close>, \<open>JFloat\<close> a \<open>float\<close>, and an object is the list of the key/value pairs of
  the decoded dict, each key once.
\<close>

datatype json =
    JNull
  | JBool bool
  | JNum int
  | JFloat pyfloat
  | JStr string
  | JArr "json list"
  | JObj "(string \<times> json) list"

text \<open>
  What the interpreter can raise in this script: the two \<^verbatim>\<open>raise Exception(...)\<close>
  statements carry their message, \<^verbatim>\<open>exit(n)\<close> raises \<open>SystemExit\<close>, the others come
  from subscripting, iterating, \<open>None.group\<close>, \<^verbatim>\<open>json.load\<close>, the decoding of a response
  body, and the checks that \<^verbatim>\<open>connection.request\<close> makes before it sends anything.
\<close>

datatype exn =
    Exception string
  | SystemExit nat
  | AttributeError
  | KeyError
  | IndexError
  | TypeError
  | JSONDecodeError
  | UnicodeDecodeError
  | UnicodeEncodeError
  | InvalidURL
  | ValueError

record request =
  rq_method :: string
  rq_host :: string
  rq_path :: string
  rq_headers :: "(string \<times> string) list"
  rq_body :: string

text \<open>
  An HTTP response: its status, what \<^verbatim>\<open>response.read().decode("utf-8")\<close> makes of its body
  (\<open>None\<close> when the body is not UTF-8 and the decoding raises), what \<^verbatim>\<open>json.load\<close> makes of
  it (\<open>None\<close> when it raises), and the exception that \<^verbatim>\<open>json.load\<close> raises in that case:
  \<open>JSONDecodeError\<close> for a text that is not a JSON document, \<open>UnicodeDecodeError\<close> for bytes
  that are no text in the encoding it detects.
\<close>

record response =
  status :: nat
  text_body :: "string option"
  payload :: "json option"
  load_error :: exn

text \<open>One call of \<open>send_https_request\<close>: what was sent, the status it expected, what came back.\<close>

record exchange =
  sent :: request
  expected :: nat
  received :: response

text \<open>The effects of a run: the HTTP exchanges made so far and the lines printed so far.\<close>

record world =
  exchanges :: "exchange list"
  stdout :: "string list"

text \<open>
  What the script reads from outside: the environment variables, the output of the two git
  commands, the remote services (a response may depend on the exchanges before it), and
  three library functions it applies to decoded values: \<open>repr\<close> of a float, list or dict,
  \<^verbatim>\<open>json.dumps\<close>, and \<^verbatim>\<open>==\<close> where a float, two lists or two dicts are compared. A
  request that the library accepts is answered: a connection that cannot be made is an
  error of the network and has no place here.
\<close>

record runtime =
  environ :: "string \<Rightarrow> string option"
  git_branch_show_current :: string
  git_remote_get_url_origin :: string
  server :: "exchange list \<Rightarrow> request \<Rightarrow> response"
  repr_other :: "json \<Rightarrow> string"
  json_dumps :: "json \<Rightarrow> string"
  eq_other :: "json \<Rightarrow> json \<Rightarrow> bool"

record tokens =
  JIRA_TOKEN :: string
  GITLAB_TOKEN :: string

type_synonym 'a action = "world \<Rightarrow> (exn + 'a) \<times> world"

definition ret :: "'a \<Rightarrow> 'a action" where
  "ret x w = (Inr x, w)"

definition raise :: "exn \<Rightarrow> 'a action" where
  "raise ex w = (Inl ex, w)"

definition lift :: "exn + 'a \<Rightarrow> 'a action" where
  "lift r w = (r, w)"

text \<open>Sequencing: an exception of the first part skips the rest (the script has no handler).\<close>

definition and_then :: "'a action \<Rightarrow> ('a \<Rightarrow> 'b action) \<Rightarrow> 'b action" where
  "and_then a f w = (case a w of (Inl ex, w') \<Rightarrow> (Inl ex, w') | (Inr x, w') \<Rightarrow> f x w')"

definition print :: "string \<Rightarrow> unit action" where
  "print s w = (Inr (), w\<lparr>stdout := stdout w @ [s]\<rparr>)"

definition py_exit :: "nat \<Rightarrow> 'a action" where
  "py_exit n = raise (SystemExit n)"

definition bindE :: "exn + 'a \<Rightarrow> ('a \<Rightarrow> exn + 'b) \<Rightarrow> exn + 'b" where
  "bindE r f = (case r of Inl ex \<Rightarrow> Inl ex | Inr x \<Rightarrow> f x)"

text \<open>The exit status of the process: 0 after a normal end, the argument of \<open>exit\<close>, 1 after a
  traceback.\<close>

definition exit_code :: "exn + unit \<Rightarrow> nat" where
  "exit_code r = (case r of Inr _ \<Rightarrow> 0 | Inl (SystemExit n) \<Rightarrow> n | Inl _ \<Rightarrow> 1)"

subsection \<open>Python operations on decoded values\<close>

text \<open>\<^verbatim>\<open>x[k]\<close> with a string key.\<close>

fun getitem :: "json \<Rightarrow> string \<Rightarrow> exn + json" where
  "getitem (JObj kvs) k = (case map_of kvs k of Some v \<Rightarrow> Inr v | None \<Rightarrow> Inl KeyError)"
| "getitem _ k = Inl TypeError"

text \<open>\<^verbatim>\<open>x[0]\<close>.\<close>

fun getitem0 :: "json \<Rightarrow> exn + json" where
  "getitem0 (JArr []) = Inl IndexError"
| "getitem0 (JArr (x # xs)) = Inr x"
| "getitem0 (JStr []) = Inl IndexError"
| "getitem0 (JStr (c # cs)) = Inr (JStr [c])"
| "getitem0 (JObj kvs) = Inl KeyError"
| "getitem0 _ = Inl TypeError"

text \<open>\<^verbatim>\<open>len(x)\<close>.\<close>

fun py_len :: "json \<Rightarrow> exn + nat" where
  "py_len (JArr xs) = Inr (length xs)"
| "py_len (JStr s) = Inr (length s)"
| "py_len (JObj kvs) = Inr (length (remdups (map fst kvs)))"
| "py_len _ = Inl TypeError"

text \<open>The elements \<^verbatim>\<open>for x in v\<close> runs over.\<close>

fun py_iter :: "json \<Rightarrow> exn + json list" where
  "py_iter (JArr xs) = Inr xs"
| "py_iter (JStr s) = Inr (map (\<lambda>c. JStr [c]) s)"
| "py_iter (JObj kvs) = Inr (map JStr (remdups (map fst kvs)))"
| "py_iter _ = Inl TypeError"

text \<open>\<^verbatim>\<open>s + v\<close> for a string \<open>s\<close>.\<close>

fun str_add :: "string \<Rightarrow> json \<Rightarrow> exn + string" where
  "str_add s (JStr t) = Inr (s @ t)"
| "str_add s _ = Inl TypeError"

text \<open>A value inside an f-string or given to \<^verbatim>\<open>print\<close>.\<close>

fun py_format :: "runtime \<Rightarrow> json \<Rightarrow> string" where
  "py_format rt (JStr s) = s"
| "py_format rt (JNum n) = str_int n"
| "py_format rt (JBool b) = (if b then ''True'' else ''False'')"
| "py_format rt JNull = ''None''"
| "py_format rt v = repr_other rt v"

text \<open>\<^verbatim>\<open>a == b\<close> on two decoded values: a string equals only the same string, \<open>None\<close> only
  \<open>None\<close>, and \<open>True\<close> and \<open>False\<close> are the integers 1 and 0.\<close>

fun py_equal :: "runtime \<Rightarrow> json \<Rightarrow> json \<Rightarrow> bool" where
  "py_equal rt (JStr s) v = (v = JStr s)"
| "py_equal rt v (JStr s) = False"
| "py_equal rt JNull v = (v = JNull)"
| "py_equal rt v JNull = False"
| "py_equal rt (JBool a) (JBool b) = (a = b)"
| "py_equal rt (JNum m) (JNum n) = (m = n)"
| "py_equal rt (JBool a) (JNum n) = (n = (if a then 1 else 0))"
| "py_equal rt (JNum n) (JBool a) = (n = (if a then 1 else 0))"
| "py_equal rt (JFloat x) (JArr ys) = False"
| "py_equal rt (JFloat x) (JObj kvs) = False"
| "py_equal rt (JFloat x) v = eq_other rt (JFloat x) v"
| "py_equal rt (JArr xs) (JArr ys) = eq_other rt (JArr xs) (JArr ys)"
| "py_equal rt (JObj kvs) (JObj kvs') = eq_other rt (JObj kvs) (JObj kvs')"
| "py_equal rt (JBool a) (JFloat y) = eq_other rt (JBool a) (JFloat y)"
| "py_equal rt (JNum n) (JFloat y) = eq_other rt (JNum n) (JFloat y)"
| "py_equal rt a b = False"

section \<open>The script\<close>

subsection \<open>Constants\<close>

definition RED :: string where
  "RED = CHR 0x1B # ''[0;31m''"

definition GREEN :: string where
  "GREEN = CHR 0x1B # ''[0;32m''"

definition BLUE :: string where
  "BLUE = CHR 0x1B # ''[0;34m''"

definition NC :: string where
  "NC = CHR 0x1B # ''[0m''"

definition JIRA_HOST :: string where
  "JIRA_HOST = ''jira.atlassian.com''"

definition JIRA_API_VERSION :: string where
  "JIRA_API_VERSION = ''2''"

definition GITLAB_HOST :: string where
  "GITLAB_HOST = ''gitlab.com''"

definition GITLAB_API_VERSION :: string where
  "GITLAB_API_VERSION = ''v4''"

definition TARGET_BRANCH :: string where
  "TARGET_BRANCH = ''develop''"

definition SQUASH :: bool where
  "SQUASH = True"

definition REMOVE_SOURCE_BRANCH :: bool where
  "REMOVE_SOURCE_BRANCH = True"

subsection \<open>Functions\<close>

definition get_current_branch :: "runtime \<Rightarrow> string" where
  "get_current_branch rt = strip_nl (git_branch_show_current rt)"

text \<open>
  What \<^verbatim>\<open>connection.request\<close> checks before anything is sent, in its order: the method has
  no control character (\<open>ValueError\<close>), the path has no control character and no space
  (\<open>InvalidURL\<close>), the request line is ASCII (\<open>UnicodeEncodeError\<close>), and each header has an
  ASCII name of the legal form and a value without a bare line break. A character stands for
  a code point below 256, so a value or a body always has its Latin-1 encoding.
\<close>

definition whitespace :: "char list" where
  "whitespace = [CHR '' '', CHR 0x09, CHR 0x0A, CHR 0x0D, CHR 0x0B, CHR 0x0C]"

text \<open>The pattern \<^verbatim>\<open>[^:\s][^:\r\n]*\<close>, matched against the whole name.\<close>

fun legal_header_name :: "string \<Rightarrow> bool" where
  "legal_header_name [] = False"
| "legal_header_name (c # cs) =
     (c \<notin> set (CHR '':'' # whitespace) \<and> list_all (\<lambda>d. d \<notin> set [CHR '':'', CHR 0x0D, CHR 0x0A]) cs)"

text \<open>The pattern \<^verbatim>\<open>\n(?![ \t])|\r(?![ \t\n])\<close>, searched in the value.\<close>

fun illegal_header_value :: "string \<Rightarrow> bool" where
  "illegal_header_value [] = False"
| "illegal_header_value [c] = (c = CHR 0x0A \<or> c = CHR 0x0D)"
| "illegal_header_value (c # d # cs) =
     ((c = CHR 0x0A \<and> d \<notin> set [CHR '' '', CHR 0x09])
      \<or> (c = CHR 0x0D \<and> d \<notin> set [CHR '' '', CHR 0x09, CHR 0x0A])
      \<or> illegal_header_value (d # cs))"

fun headers_error :: "(string \<times> string) list \<Rightarrow> exn option" where
  "headers_error [] = None"
| "headers_error ((name, v) # hs) =
     (if list_ex (\<lambda>c. (0x80::nat) \<le> of_char c) name then Some UnicodeEncodeError
      else if \<not> legal_header_name name then Some ValueError
      else if illegal_header_value v then Some ValueError
      else headers_error hs)"

definition request_error :: "request \<Rightarrow> exn option" where
  "request_error rq =
     (if list_ex (\<lambda>c. of_char c < (0x20::nat)) (rq_method rq) then Some ValueError
      else if list_ex (\<lambda>c. of_char c \<le> (0x20::nat) \<or> of_char c = (0x7F::nat)) (rq_path rq)
        then Some InvalidURL
      else if list_ex (\<lambda>c. (0x80::nat) \<le> of_char c) (rq_method rq @ rq_path rq)
        then Some UnicodeEncodeError
      else headers_error (rq_headers rq))"

text \<open>
  \<open>send_https_request\<close>: a request that passes the checks goes out and the exchange is
  recorded; the status then decides between the \<open>Exception\<close> with the formatted message,
  for which the body of the response is decoded, and the decoded JSON body. The defaults
  \<^verbatim>\<open>body = ''\<close> and \<^verbatim>\<open>expected_status=200\<close> are written out by the callers, which pass one
  of the two hosts of the script.
\<close>

definition send_https_request ::
  "runtime \<Rightarrow> string \<Rightarrow> string \<Rightarrow> string \<Rightarrow> (string \<times> string) list \<Rightarrow> string \<Rightarrow> nat
     \<Rightarrow> json action" where
  "send_https_request rt method host path headers body expected_status w =
     (let rq = \<lparr>rq_method = method, rq_host = host, rq_path = path, rq_headers = headers,
                rq_body = body\<rparr>
      in case request_error rq of
        Some ex \<Rightarrow> (Inl ex, w)
      | None \<Rightarrow>
         (let response = server rt (exchanges w) rq;
              w' = w\<lparr>exchanges := exchanges w
                     @ [\<lparr>sent = rq, expected = expected_status, received = response\<rparr>]\<rparr>
          in if status response \<noteq> expected_status then
               (case text_body response of
                  None \<Rightarrow> (Inl UnicodeDecodeError, w')
                | Some decoded \<Rightarrow>
                    (Inl (Exception
                       (RED @ ''Request failed'' @ NC @ NL
                        @ ''request: '' @ method @ '' https://'' @ host @ path @ NL @ body
                        @ NL @ NL
                        @ ''response status: '' @ str_nat (status response) @ NL
                        @ ''response body: '' @ decoded)), w'))
             else (case payload response of
                     None \<Rightarrow> (Inl (load_error response), w')
                   | Some j \<Rightarrow> (Inr j, w'))))"

text \<open>The loop of \<open>get_project_id\<close> over the search result, with the \<open>raise\<close> that follows it.\<close>

fun find_project :: "string \<Rightarrow> json list \<Rightarrow> exn + json" where
  "find_project remote_url [] =
     Inl (Exception (RED @ ''Cannot find project whith url:'' @ NC @ '' '' @ remote_url))"
| "find_project remote_url (project # rest) =
     (case getitem project ''ssh_url_to_repo'' of
        Inl ex \<Rightarrow> Inl ex
      | Inr ssh \<Rightarrow>
          (case getitem project ''http_url_to_repo'' of
             Inl ex \<Rightarrow> Inl ex
           | Inr http \<Rightarrow>
               if JStr remote_url \<in> set [ssh, http] then getitem project ''id''
               else find_project remote_url rest))"

text \<open>\<^verbatim>\<open>m.group(1)\<close> inside an f-string: a group that took no part prints as \<open>None\<close>.\<close>

definition fmt_group :: "string option \<Rightarrow> string" where
  "fmt_group g = (case g of None \<Rightarrow> ''None'' | Some s \<Rightarrow> s)"

definition get_project_id :: "runtime \<Rightarrow> tokens \<Rightarrow> json action" where
  "get_project_id rt tok =
     (let remote_url = strip_nl (git_remote_get_url_origin rt) in
      case re_search PROJECT_NAME_REGEX remote_url of
        None \<Rightarrow> raise AttributeError
      | Some m \<Rightarrow>
          let project_name = group1 m;
              min_access_level = ''30'';
              max_per_page = ''100''
          in and_then
               (send_https_request rt ''GET'' GITLAB_HOST
                  (''/api/'' @ GITLAB_API_VERSION @ ''/projects?''
                   @ ''archived=false''
                   @ ''&min_access_level='' @ min_access_level
                   @ ''&simple=true''
                   @ ''&with_merge_requests_enabled=true''
                   @ ''&pagination=keyset''
                   @ ''&per_page='' @ max_per_page
                   @ ''&sort=desc''
                   @ ''&order_by=id''
                   @ ''&search='' @ fmt_group project_name)
                  [(''PRIVATE-TOKEN'', GITLAB_TOKEN tok)] '''' 200)
               (\<lambda>response. lift (bindE (py_iter response) (find_project remote_url))))"

definition get_user_id :: "runtime \<Rightarrow> tokens \<Rightarrow> json action" where
  "get_user_id rt tok =
     and_then
       (send_https_request rt ''GET'' GITLAB_HOST
          (''/api/'' @ GITLAB_API_VERSION @ ''/user'')
          [(''PRIVATE-TOKEN'', GITLAB_TOKEN tok)] '''' 200)
       (\<lambda>response. lift (getitem response ''id''))"

text \<open>The result is the first entry's \<open>web_url\<close>, or \<open>JNull\<close> for Python's \<open>None\<close>.\<close>

definition get_already_exist_mr_link ::
  "runtime \<Rightarrow> tokens \<Rightarrow> json \<Rightarrow> string \<Rightarrow> string \<Rightarrow> json action" where
  "get_already_exist_mr_link rt tok project_id current_branch target_branch =
     and_then
       (send_https_request rt ''GET'' GITLAB_HOST
          (''/api/'' @ GITLAB_API_VERSION @ ''/projects/'' @ py_format rt project_id
           @ ''/merge_requests?''
           @ ''state=opened''
           @ ''&source_branch='' @ current_branch
           @ ''&target_branch='' @ target_branch)
          [(''PRIVATE-TOKEN'', GITLAB_TOKEN tok), (''Content-Type'', ''application/json'')]
          '''' 200)
       (\<lambda>response. lift (bindE (py_len response) (\<lambda>n.
          if n > 0 then bindE (getitem0 response) (\<lambda>first. getitem first ''web_url'')
          else Inr JNull)))"

definition create_mr_request_body ::
  "runtime \<Rightarrow> string \<Rightarrow> string \<Rightarrow> string \<Rightarrow> json \<Rightarrow> bool \<Rightarrow> bool \<Rightarrow> string" where
  "create_mr_request_body rt title current_branch target_branch user_id squash
       remove_source_branch =
     json_dumps rt (JObj
       [(''title'', JStr title),
        (''source_branch'', JStr current_branch),
        (''target_branch'', JStr target_branch),
        (''assignee_id'', user_id),
        (''squash'', JBool squash),
        (''remove_source_branch'', JBool remove_source_branch)])"

definition create_mr ::
  "runtime \<Rightarrow> tokens \<Rightarrow> json \<Rightarrow> string \<Rightarrow> string \<Rightarrow> string \<Rightarrow> json \<Rightarrow> bool \<Rightarrow> bool
     \<Rightarrow> json action" where
  "create_mr rt tok project_id title current_branch target_branch user_id squash
       remove_source_branch =
     and_then
       (send_https_request rt ''POST'' GITLAB_HOST
          (''/api/'' @ GITLAB_API_VERSION @ ''/projects/'' @ py_format rt project_id
           @ ''/merge_requests'')
          [(''PRIVATE-TOKEN'', GITLAB_TOKEN tok), (''Content-Type'', ''application/json'')]
          (create_mr_request_body rt title current_branch target_branch user_id squash
             remove_source_branch)
          201)
       (\<lambda>response. lift (getitem response ''web_url''))"

definition get_task_title :: "runtime \<Rightarrow> tokens \<Rightarrow> string \<Rightarrow> json action" where
  "get_task_title rt tok task =
     and_then
       (send_https_request rt ''GET'' JIRA_HOST
          (''/rest/api/'' @ JIRA_API_VERSION @ ''/issue/'' @ task)
          [(''Authorization'', ''Bearer '' @ JIRA_TOKEN tok)] '''' 200)
       (\<lambda>response. lift (bindE (getitem response ''fields'') (\<lambda>fields.
          getitem fields ''summary'')))"

text \<open>\<open>re.search\<close> needs a string; \<open>.group(1)\<close> on no match is the \<open>AttributeError\<close>.\<close>

definition get_service_name_from :: "json \<Rightarrow> exn + json" where
  "get_service_name_from mr_link =
     (case mr_link of
        JStr s \<Rightarrow>
          (case re_search SERVICE_NAME_REGEX s of
             None \<Rightarrow> Inl AttributeError
           | Some m \<Rightarrow> Inr (case group1 m of None \<Rightarrow> JNull | Some name \<Rightarrow> JStr name))
      | _ \<Rightarrow> Inl TypeError)"

text \<open>The loop of \<open>is_issue_link_already_exist\<close> over the remote links of the ticket.\<close>

fun link_listed :: "runtime \<Rightarrow> json \<Rightarrow> json list \<Rightarrow> exn + bool" where
  "link_listed rt mr_link [] = Inr False"
| "link_listed rt mr_link (issue # rest) =
     (case getitem issue ''object'' of
        Inl ex \<Rightarrow> Inl ex
      | Inr obj \<Rightarrow>
          (case getitem obj ''url'' of
             Inl ex \<Rightarrow> Inl ex
           | Inr url \<Rightarrow>
               if py_equal rt url mr_link then Inr True else link_listed rt mr_link rest))"

definition is_issue_link_already_exist :: "runtime \<Rightarrow> tokens \<Rightarrow> string \<Rightarrow> json \<Rightarrow> bool action" where
  "is_issue_link_already_exist rt tok task mr_link =
     and_then
       (send_https_request rt ''GET'' JIRA_HOST
          (''/rest/api/'' @ JIRA_API_VERSION @ ''/issue/'' @ task @ ''/remotelink'')
          [(''Authorization'', ''Bearer '' @ JIRA_TOKEN tok)] '''' 200)
       (\<lambda>response. lift (bindE (py_iter response) (link_listed rt mr_link)))"

definition create_jira_issue_link_request_body :: "runtime \<Rightarrow> json \<Rightarrow> exn + string" where
  "create_jira_issue_link_request_body rt mr_link =
     bindE (get_service_name_from mr_link) (\<lambda>title.
       Inr (json_dumps rt (JObj
         [(''object'', JObj
            [(''url'', mr_link),
             (''title'', title),
             (''icon'', JObj
                [(''url16x16'', JStr (''https://'' @ GITLAB_HOST @ ''/favicon.ico''))])])])))"

definition add_jira_issue_link :: "runtime \<Rightarrow> tokens \<Rightarrow> string \<Rightarrow> json \<Rightarrow> json action" where
  "add_jira_issue_link rt tok task mr_link =
     and_then (lift (create_jira_issue_link_request_body rt mr_link)) (\<lambda>body.
       send_https_request rt ''POST'' JIRA_HOST
         (''/rest/api/'' @ JIRA_API_VERSION @ ''/issue/'' @ task @ ''/remotelink'')
         [(''Authorization'', ''Bearer '' @ JIRA_TOKEN tok),
          (''Content-Type'', ''application/json'')]
         body 201)"

subsection \<open>\<open>main\<close>, one definition for each step of the function\<close>

text \<open>Lines 178 to 184: the current branch, which must not be the target branch.\<close>

definition read_branch :: "runtime \<Rightarrow> string action" where
  "read_branch rt =
     and_then (print ''>>> Geting current branch name...'') (\<lambda>_.
     let current_branch = get_current_branch rt in
     and_then (print current_branch) (\<lambda>_.
     if current_branch = TARGET_BRANCH then
       and_then (print (RED @ ''Cannot open MR:'' @ NC @ '' current branch is target (''
                        @ TARGET_BRANCH @ '')'')) (\<lambda>_.
       py_exit 1)
     else ret current_branch))"

text \<open>Lines 186 to 192: the task name is what \<open>TASK_NAME_REGEX\<close> matches at the start of the
  branch name. (The message names the target branch, as the source does.)\<close>

definition extract_task :: "string \<Rightarrow> string action" where
  "extract_task current_branch =
     and_then (print ''>>> Extracting task name from branch name...'') (\<lambda>_.
     case re_match TASK_NAME_REGEX current_branch of
       None \<Rightarrow>
         and_then (print (RED @ ''Cannot open MR:'' @ NC @ '' current branch name (''
                          @ TARGET_BRANCH @ '') doesn'' @ [CHR 0x27] @ ''t start with ''
                          @ [CHR 0x27] @ ''TCRM-[0-9]*'' @ [CHR 0x27])) (\<lambda>_.
         py_exit 1)
     | Some m \<Rightarrow>
         let task = group0 m in
         and_then (print task) (\<lambda>_. ret task))"

text \<open>Lines 194 to 196.\<close>

definition resolve_project :: "runtime \<Rightarrow> tokens \<Rightarrow> json action" where
  "resolve_project rt tok =
     and_then (print ''>>> Getting GitLab project id...'') (\<lambda>_.
     and_then (get_project_id rt tok) (\<lambda>project_id.
     and_then (print (py_format rt project_id)) (\<lambda>_.
     ret project_id)))"

text \<open>Lines 198 to 221: the open merge request of the branch is looked up; without one, the
  title is built, the user id fetched (an argument of the call) and the request created.\<close>

definition find_or_create_mr ::
  "runtime \<Rightarrow> tokens \<Rightarrow> json \<Rightarrow> string \<Rightarrow> string \<Rightarrow> json action" where
  "find_or_create_mr rt tok project_id current_branch task =
     and_then (print ''>>> Check if MR is already oppened...'') (\<lambda>_.
     and_then (get_already_exist_mr_link rt tok project_id current_branch TARGET_BRANCH)
       (\<lambda>mr_link.
     if mr_link \<noteq> JNull then
       and_then (print (''MR already opened:'' @ NL @ BLUE @ py_format rt mr_link @ NC)) (\<lambda>_.
       ret mr_link)
     else
       and_then (print ''No open MR was found. A new one will be created'') (\<lambda>_.
       and_then (print ''>>> Getting task title...'') (\<lambda>_.
       and_then (get_task_title rt tok task) (\<lambda>summary.
       and_then (lift (str_add task summary)) (\<lambda>title.
       and_then (print title) (\<lambda>_.
       and_then (print ''>>> Creating MR...'') (\<lambda>_.
       and_then (get_user_id rt tok) (\<lambda>user_id.
       and_then (create_mr rt tok project_id title current_branch TARGET_BRANCH user_id
                   SQUASH REMOVE_SOURCE_BRANCH) (\<lambda>mr_link.
       and_then (print (GREEN @ ''MR opened:'' @ NC @ '' '' @ current_branch)) (\<lambda>_.
       and_then (print (BLUE @ py_format rt mr_link @ NC)) (\<lambda>_.
       ret mr_link))))))))))))"

text \<open>Lines 223 to 230: the link to the merge request is added to the task unless it is
  listed there.\<close>

definition link_mr_to_task :: "runtime \<Rightarrow> tokens \<Rightarrow> string \<Rightarrow> json \<Rightarrow> unit action" where
  "link_mr_to_task rt tok task mr_link =
     and_then (print ''>>> Check if MR link in task is already exist...'') (\<lambda>_.
     and_then (is_issue_link_already_exist rt tok task mr_link) (\<lambda>listed.
     if listed then print ''MR link already added to task''
     else
       and_then (print ''MR link not found'') (\<lambda>_.
       and_then (print ''>>> Adding MR link to task...'') (\<lambda>_.
       and_then (add_jira_issue_link rt tok task mr_link) (\<lambda>_.
       print (GREEN @ ''MR link added to task'' @ NC))))))"

definition main :: "runtime \<Rightarrow> tokens \<Rightarrow> unit action" where
  "main rt tok =
     and_then (read_branch rt) (\<lambda>current_branch.
     and_then (extract_task current_branch) (\<lambda>task.
     and_then (resolve_project rt tok) (\<lambda>project_id.
     and_then (find_or_create_mr rt tok project_id current_branch task) (\<lambda>mr_link.
     and_then (link_mr_to_task rt tok task mr_link) (\<lambda>_.
     print (BLUE @ ''https://'' @ JIRA_HOST @ ''/browse/'' @ task @ NC))))))"

text \<open>The module body: both tokens must be in the environment before \<open>main\<close> runs.\<close>

definition script :: "runtime \<Rightarrow> unit action" where
  "script rt =
     (case environ rt ''JIRA_TOKEN'' of
        None \<Rightarrow>
          and_then
            (print (RED @ ''There is no '' @ [CHR 0x22] @ ''JIRA_TOKEN'' @ [CHR 0x22]
                    @ '' in ENV variables! Exiting...'' @ NC))
            (\<lambda>_. py_exit 1)
      | Some jira \<Rightarrow>
          (case environ rt ''GITLAB_TOKEN'' of
             None \<Rightarrow>
               and_then
                 (print (RED @ ''There is no '' @ [CHR 0x22] @ ''GITLAB_TOKEN'' @ [CHR 0x22]
                    @ '' in ENV variables! Exiting...'' @ NC))
                 (\<lambda>_. py_exit 1)
           | Some gitlab \<Rightarrow> main rt \<lparr>JIRA_TOKEN = jira, GITLAB_TOKEN = gitlab\<rparr>))"

text \<open>A run starts with nothing sent and nothing printed.\<close>

definition start :: world where
  "start = \<lparr>exchanges = [], stdout = []\<rparr>"

section \<open>Example environments\<close>

text \<open>A server that answers the \<open>n\<close>-th request of a run with the \<open>n\<close>-th response of a list,
  and with 404 once the list is used up.\<close>

definition scripted :: "response list \<Rightarrow> exchange list \<Rightarrow> request \<Rightarrow> response" where
  "scripted rs h rq =
     (if length h < length rs then rs ! length h
      else \<lparr>status = 404, text_body = Some ''Not Found'', payload = None,
            load_error = JSONDecodeError\<rparr>)"

definition ok_json :: "json \<Rightarrow> response" where
  "ok_json j = \<lparr>status = 200, text_body = Some [], payload = Some j,
     load_error = JSONDecodeError\<rparr>"

definition created_json :: "json \<Rightarrow> response" where
  "created_json j = \<lparr>status = 201, text_body = Some [], payload = Some j,
     load_error = JSONDecodeError\<rparr>"

text \<open>A machine with both tokens set, on the given branch of a clone of the given remote.\<close>

definition example_runtime ::
  "string \<Rightarrow> string \<Rightarrow> (exchange list \<Rightarrow> request \<Rightarrow> response) \<Rightarrow> runtime" where
  "example_runtime branch remote srv =
     \<lparr>environ = [''JIRA_TOKEN'' \<mapsto> ''jira-secret'', ''GITLAB_TOKEN'' \<mapsto> ''gitlab-secret''],
      git_branch_show_current = branch @ NL,
      git_remote_get_url_origin = remote @ NL,
      server = srv,
      repr_other = (\<lambda>_. ''[...]''),
      json_dumps = (\<lambda>_. ''{...}''),
      eq_other = (\<lambda>a b. a = b)\<rparr>"

definition example_tokens :: tokens where
  "example_tokens = \<lparr>JIRA_TOKEN = ''jira-secret'', GITLAB_TOKEN = ''gitlab-secret''\<rparr>"

text \<open>Two entries of a project search result.\<close>

definition project_other :: json where
  "project_other = JObj
     [(''id'', JNum 41),
      (''ssh_url_to_repo'', JStr ''git@gitlab.com:group/service-old.git''),
      (''http_url_to_repo'', JStr ''https://gitlab.com/group/service-old.git'')]"

definition project_service :: json where
  "project_service = JObj
     [(''id'', JNum 42),
      (''ssh_url_to_repo'', JStr ''git@gitlab.com:group/service.git''),
      (''http_url_to_repo'', JStr ''https://gitlab.com/group/service.git'')]"

text \<open>A code host and a tracker on which a run creates the merge request and links it: the
  project is found, there is no open merge request, the issue has its summary, the user is
  known, the merge request is created, the issue has no link, the link is added.\<close>

definition creating_server :: "exchange list \<Rightarrow> request \<Rightarrow> response" where
  "creating_server = scripted
     [ok_json (JArr [project_service]),
      ok_json (JArr []),
      ok_json (JObj [(''fields'', JObj [(''summary'', JStr '' Fix the bug'')])]),
      ok_json (JObj [(''id'', JNum 7)]),
      created_json (JObj [(''web_url'', JStr ''https://gitlab.com/group/service/-/merge_requests/7'')]),
      ok_json (JArr []),
      created_json (JObj [])]"

text \<open>A code host and a tracker on which a run finds the merge request of the branch open,
  and linked to the issue.\<close>

definition matching_server :: "exchange list \<Rightarrow> request \<Rightarrow> response" where
  "matching_server = scripted
     [ok_json (JArr [project_service]),
      ok_json (JArr [JObj [(''web_url'', JStr ''https://gitlab.com/group/service/-/merge_requests/7'')],
                     JObj [(''web_url'', JStr ''https://gitlab.com/group/service/-/merge_requests/3'')]]),
      ok_json (JArr [JObj [(''object'', JObj [(''url'',
          JStr ''https://gitlab.com/group/service/-/merge_requests/7'')])]])]"

section \<open>Vocabulary of the properties\<close>

text \<open>The indices at which the text \<open>p\<close> occurs in a string, counted from \<open>k\<close>.\<close>

fun occurrences :: "string \<Rightarrow> string \<Rightarrow> nat \<Rightarrow> nat list" where
  "occurrences p [] k = (if p = [] then [k] else [])"
| "occurrences p (x # xs) k =
     (if prefix p (x # xs) then [k] else []) @ occurrences p xs (Suc k)"





text \<open>An entry of the project search result that has the given key.\<close>

definition has_key :: "json \<Rightarrow> string \<Rightarrow> bool" where
  "has_key p k = (case getitem p k of Inl _ \<Rightarrow> False | Inr _ \<Rightarrow> True)"

text \<open>An entry whose SSH or HTTPS clone URL is the given URL.\<close>

definition clone_url_is :: "string \<Rightarrow> json \<Rightarrow> bool" where
  "clone_url_is u p =
     (getitem p ''ssh_url_to_repo'' = Inr (JStr u) \<or> getitem p ''http_url_to_repo'' = Inr (JStr u))"

text \<open>The exchange that \<open>create_mr\<close> makes: a POST to the merge requests of a project on the
  GitLab host.\<close>

definition is_create_mr :: "exchange \<Rightarrow> bool" where
  "is_create_mr x =
     (rq_method (sent x) = ''POST'' \<and> rq_host (sent x) = GITLAB_HOST
      \<and> prefix (''/api/'' @ GITLAB_API_VERSION @ ''/projects/'') (rq_path (sent x))
      \<and> suffix ''/merge_requests'' (rq_path (sent x)))"

text \<open>The exchanges made between two states of a run.\<close>

definition added :: "world \<Rightarrow> world \<Rightarrow> exchange list" where
  "added w w' = drop (length (exchanges w)) (exchanges w')"

text \<open>A state after more lines have been printed.\<close>

definition said :: "string list \<Rightarrow> world \<Rightarrow> world" where
  "said lines w = w\<lparr>stdout := stdout w @ lines\<rparr>"

text \<open>An action that adds exchanges to those made before it, at most \<open>n\<close> of them made by
  \<open>create_mr\<close>.\<close>

definition creates_at_most :: "nat \<Rightarrow> 'a action \<Rightarrow> bool" where
  "creates_at_most n a =
     (\<forall>w. \<exists>xs. exchanges (snd (a w)) = exchanges w @ xs
             \<and> length (filter is_create_mr xs) \<le> n)"

section \<open>Properties of the matcher\<close>

lemmas action_defs = and_then_def print_def ret_def raise_def lift_def py_exit_def Let_def

lemma rmatch_lits:
  "rmatch (lits p @ r) s i b e =
     (if prefix p s then rmatch r (drop (length p) s) (i + length p) b e else None)"
proof (induction p arbitrary: s i)
  case Nil
  then show ?case by (simp add: lits_def)
next
  case (Cons c p)
  then show ?case by (cases s) (auto simp: lits_def)
qed

lemma rmatch_star_last:
  "rmatch [Star cls] s i b e = Some (i + length (takeWhile (\<lambda>c. in_class c cls) s), b, e)"
  by (induction s arbitrary: i) auto

text \<open>A literal prefix followed by a starred class, matched at the start of the string: the
  prefix and the longest run of the class after it.\<close>

lemma re_match_prefix_star:
  "map_option group0 (re_match (lits p @ [Star cls]) s) =
     (if prefix p s then Some (p @ takeWhile (\<lambda>c. in_class c cls) (drop (length p) s))
      else None)"
proof (cases "prefix p s")
  case True
  then obtain t where "s = p @ t" by (auto simp: prefix_def)
  then show ?thesis
    by (simp add: re_match_def rmatch_lits rmatch_star_last mk_match_def group0_def
        takeWhile_eq_take[symmetric])
next
  case False
  then show ?thesis by (simp add: re_match_def rmatch_lits)
qed

lemma takeWhile_run_then:
  assumes "\<forall>c\<in>set ds. P c" and "\<not> P x"
  shows "takeWhile P (ds @ x # rest) = ds"
  using assms by (induction ds) auto

lemma hyphen_no_digit: "\<not> in_class CHR ''-'' digit_class"
  by (simp add: digit_class_def)

lemma extract_task_prefix:
  "extract_task (''TCRM-'' @ s) w =
     (Inr (''TCRM-'' @ takeWhile (\<lambda>c. in_class c digit_class) s),
      w\<lparr>stdout := stdout w @ [''>>> Extracting task name from branch name...'',
                              ''TCRM-'' @ takeWhile (\<lambda>c. in_class c digit_class) s]\<rparr>)"
proof -
  have "map_option group0 (re_match TASK_NAME_REGEX (''TCRM-'' @ s))
      = Some (''TCRM-'' @ takeWhile (\<lambda>c. in_class c digit_class) s)"
    unfolding TASK_NAME_REGEX_def re_match_prefix_star by simp
  then obtain m where "re_match TASK_NAME_REGEX (''TCRM-'' @ s) = Some m"
    and "group0 m = ''TCRM-'' @ takeWhile (\<lambda>c. in_class c digit_class) s"
    by auto
  then show ?thesis
    by (simp add: extract_task_def action_defs)
qed

lemma rmatch_star_then:
  assumes "\<And>x xs i b e. in_class x cls \<Longrightarrow> rmatch r (x # xs) i b e = None"
  shows "rmatch (Star cls # r) s i b e =
     rmatch r (dropWhile (\<lambda>c. in_class c cls) s)
       (i + length (takeWhile (\<lambda>c. in_class c cls) s)) b e"
  using assms by (induction s arbitrary: i) (auto split: option.splits)

lemma search_from_Some:
  assumes "search_from p s rest k = Some m"
  shows "\<exists>j r. j \<le> length rest \<and> rmatch p (drop j rest) (k + j) None None = Some r
           \<and> m = mk_match s (k + j) r"
  using assms
proof (induction rest arbitrary: k)
  case Nil
  then show ?case by auto
next
  case (Cons x xs)
  show ?case
  proof (cases "rmatch p (x # xs) k None None")
    case (Some r)
    with Cons.prems show ?thesis by (intro exI[of _ 0]) auto
  next
    case None
    with Cons.prems have "search_from p s xs (Suc k) = Some m" by simp
    from Cons.IH[OF this]
    obtain j r where j: "j \<le> length xs" "rmatch p (drop j xs) (Suc k + j) None None = Some r"
      "m = mk_match s (Suc k + j) r"
      by auto
    then show ?thesis by (intro exI[of _ "Suc j"]) auto
  qed
qed

lemma search_from_None:
  "search_from p s rest k = None \<Longrightarrow> j \<le> length rest
     \<Longrightarrow> rmatch p (drop j rest) (k + j) None None = None"
proof (induction rest arbitrary: k j)
  case Nil
  then show ?case by auto
next
  case (Cons x xs)
  show ?case
  proof (cases j)
    case 0
    with Cons.prems show ?thesis by (auto split: option.splits)
  next
    case (Suc n)
    from Cons.prems have "search_from p s xs (Suc k) = None" by (auto split: option.splits)
    from Cons.IH[OF this, of n] Cons.prems Suc show ?thesis by simp
  qed
qed

lemma slash_not_service: "\<not> in_class CHR ''/'' service_class"
  by (simp add: service_class_def)

text \<open>The service-name pattern at one position: a slash, the longest run of the class, and
  the literal text right after it.\<close>

lemma rmatch_service:
  "rmatch SERVICE_NAME_REGEX s k None None =
     (case s of
        [] \<Rightarrow> None
      | x # t \<Rightarrow>
          if x = CHR ''/'' \<and> prefix ''/-/merge_requests'' (dropWhile (\<lambda>c. in_class c service_class) t)
          then Some (Suc k + length (takeWhile (\<lambda>c. in_class c service_class) t) + 17,
                     Some (Suc k),
                     Some (Suc k + length (takeWhile (\<lambda>c. in_class c service_class) t)))
          else None)"
proof (cases s)
  case Nil
  then show ?thesis by (simp add: SERVICE_NAME_REGEX_def)
next
  case (Cons x t)
  have tail: "\<And>y ys i b e. in_class y service_class
      \<Longrightarrow> rmatch (GClose # lits ''/-/merge_requests'') (y # ys) i b e = None"
  proof -
    fix y ys i b e
    assume "in_class y service_class"
    then have "y \<noteq> CHR ''/''" using slash_not_service by auto
    then show "rmatch (GClose # lits ''/-/merge_requests'') (y # ys) i b e = None"
      by (simp add: lits_def)
  qed
  have lit: "\<And>u i b e. rmatch (lits ''/-/merge_requests'') u i b e
      = (if prefix ''/-/merge_requests'' u then Some (i + 17, b, e) else None)"
    using rmatch_lits[of "''/-/merge_requests''" "[]"] by simp
  show ?thesis
    unfolding Cons SERVICE_NAME_REGEX_def
    by (simp add: rmatch_star_then[OF tail] lit)
qed


lemma re_search_service_sound:
  assumes "re_search SERVICE_NAME_REGEX s = Some m"
  shows "\<exists>pre run post. s = pre @ ''/'' @ run @ ''/-/merge_requests'' @ post
           \<and> (\<forall>c\<in>set run. in_class c service_class) \<and> group1 m = Some run"
proof -
  let ?P = "\<lambda>c. in_class c service_class"
  from search_from_Some[OF assms[unfolded re_search_def]]
  obtain j r where j: "j \<le> length s"
    and r: "rmatch SERVICE_NAME_REGEX (drop j s) j None None = Some r"
    and m: "m = mk_match s j r" by auto
  from r obtain t where t: "drop j s = CHR ''/'' # t"
    and pre: "prefix ''/-/merge_requests'' (dropWhile ?P t)"
    and rv: "r = (Suc j + length (takeWhile ?P t) + 17, Some (Suc j),
                  Some (Suc j + length (takeWhile ?P t)))"
    unfolding rmatch_service by (auto split: list.splits if_splits)
  from pre obtain post where post: "dropWhile ?P t = ''/-/merge_requests'' @ post"
    by (auto simp: prefix_def)
  have tsplit: "t = takeWhile ?P t @ ''/-/merge_requests'' @ post"
    using takeWhile_dropWhile_id[of ?P t] post by simp
  have s: "s = take j s @ ''/'' @ takeWhile ?P t @ ''/-/merge_requests'' @ post"
    using append_take_drop_id[of j s] t tsplit by (metis append_Cons append_Nil)
  have dr: "drop (Suc j) s = t"
    using t by (metis drop_Suc tl_drop list.sel(3))
  have g: "group1 m = Some (takeWhile ?P t)"
    unfolding m rv using dr tsplit
    by (simp add: mk_match_def group1_def) (metis append_eq_conv_conj)
  have "\<forall>c\<in>set (takeWhile ?P t). ?P c" by (auto dest: set_takeWhileD)
  with s g show ?thesis by blast
qed

lemma re_search_service_complete:
  assumes "s = pre @ ''/'' @ run @ ''/-/merge_requests'' @ post"
    and "\<forall>c\<in>set run. in_class c service_class"
  shows "re_search SERVICE_NAME_REGEX s \<noteq> None"
proof
  let ?P = "\<lambda>c. in_class c service_class"
  assume "re_search SERVICE_NAME_REGEX s = None"
  then have "rmatch SERVICE_NAME_REGEX (drop (length pre) s) (0 + length pre) None None = None"
    unfolding re_search_def by (rule search_from_None) (simp add: assms(1))
  moreover have "drop (length pre) s = CHR ''/'' # run @ ''/-/merge_requests'' @ post"
    by (simp add: assms(1))
  moreover have "takeWhile ?P (run @ CHR ''/'' # ''-/merge_requests'' @ post) = run"
    by (rule takeWhile_run_then[OF assms(2) slash_not_service])
  moreover have "dropWhile ?P (run @ CHR ''/'' # ''-/merge_requests'' @ post)
      = CHR ''/'' # ''-/merge_requests'' @ post"
    using assms(2) slash_not_service by (induction run) auto
  ultimately show False
    by (simp add: rmatch_service)
qed

lemma last_segment_unique:
  assumes "a @ x # u = b @ x # v" and "x \<notin> set u" and "x \<notin> set v"
  shows "u = v"
proof -
  have "takeWhile (\<lambda>c. c \<noteq> x) (rev (a @ x # u)) = rev u"
    using assms(2) by (auto simp: takeWhile_tail)
  moreover have "takeWhile (\<lambda>c. c \<noteq> x) (rev (b @ x # v)) = rev v"
    using assms(3) by (auto simp: takeWhile_tail)
  ultimately show ?thesis using assms(1) by simp
qed

lemma occurrences_mem:
  "s = a @ p @ b \<Longrightarrow> k + length a \<in> set (occurrences p s k)"
proof (induction a arbitrary: s k)
  case Nil
  have "k \<in> set (occurrences p t k)" if "prefix p t" for t
    using that by (cases t) auto
  from this[of "p @ b"] Nil show ?case by simp
next
  case (Cons x a)
  from Cons.IH[of "a @ p @ b" "Suc k"] Cons.prems show ?case by auto
qed

lemma occurs_once:
  assumes "length (occurrences p s 0) = 1" and "s = a @ p @ b" and "s = a' @ p @ b'"
  shows "a = a'"
proof -
  from assms(1) obtain n where n: "occurrences p s 0 = [n]"
    by (cases "occurrences p s 0") auto
  from occurrences_mem[OF assms(2), of 0] occurrences_mem[OF assms(3), of 0] n
  have "length a = length a'" by simp
  with assms(2,3) show ?thesis by (metis append_eq_append_conv)
qed

lemma service_name_of_segment:
  assumes url: "url = pre @ ''/'' @ seg @ ''/-/merge_requests'' @ post"
    and seg: "CHR ''/'' \<notin> set seg"
    and once: "length (occurrences ''/-/merge_requests'' url 0) = 1"
  shows "get_service_name_from (JStr url) =
     (if \<forall>c\<in>set seg. in_class c service_class then Inr (JStr seg) else Inl AttributeError)"
proof (cases "re_search SERVICE_NAME_REGEX url")
  case None
  with re_search_service_complete[OF url] show ?thesis
    by (auto simp: get_service_name_from_def)
next
  case (Some m)
  from re_search_service_sound[OF Some] obtain pre' run post'
    where s: "url = pre' @ ''/'' @ run @ ''/-/merge_requests'' @ post'"
      and run: "\<forall>c\<in>set run. in_class c service_class" and g: "group1 m = Some run"
    by blast
  have "pre' @ ''/'' @ run = pre @ ''/'' @ seg"
    by (rule occurs_once[OF once, of _ post' _ post]) (use s url in simp_all)
  moreover have "CHR ''/'' \<notin> set run" using run slash_not_service by auto
  ultimately have "run = seg"
    using last_segment_unique[of pre' "CHR ''/''" run pre seg] seg by simp
  with run g Some show ?thesis
    by (simp add: get_service_name_from_def)
qed

section \<open>Ticket extraction\<close>

text \<open>
  C7. Ticket extraction returns what the pattern matches at the start of the branch name.
  For a pattern made of a literal prefix, a hyphen and \<^verbatim>\<open>[0-9]*\<close>, and a branch that is
  this prefix, a hyphen, a run of digits, a hyphen and anything, the matched text is the
  prefix, the hyphen and the digits. With the prefix \<open>TCRM\<close> of the script, this is the task
  that \<open>main\<close> extracts. The example of the specification (\<open>TICKET-42-fix-bug\<close>) is the
  instance below.
\<close>

theorem ticket_id_is_prefix_and_digits:
  "(\<forall>c\<in>set ds. in_class c digit_class) \<longrightarrow>
     map_option group0
       (re_match (lits (p @ ''-'') @ [Star digit_class]) (p @ ''-'' @ ds @ ''-'' @ rest))
       = Some (p @ ''-'' @ ds)
     \<and> fst (extract_task (''TCRM-'' @ ds @ ''-'' @ rest) w) = Inr (''TCRM-'' @ ds)"
proof
  assume ds: "\<forall>c\<in>set ds. in_class c digit_class"
  have tw: "takeWhile (\<lambda>c. in_class c digit_class) (ds @ ''-'' @ rest) = ds"
    using takeWhile_run_then[OF ds hyphen_no_digit, of rest] by simp
  have "map_option group0
       (re_match (lits (p @ ''-'') @ [Star digit_class]) ((p @ ''-'') @ ds @ ''-'' @ rest))
       = Some ((p @ ''-'') @ ds)"
    unfolding re_match_prefix_star using tw by simp
  moreover have "fst (extract_task (''TCRM-'' @ ds @ ''-'' @ rest) w) = Inr (''TCRM-'' @ ds)"
    unfolding extract_task_prefix using tw by simp
  ultimately show "map_option group0
       (re_match (lits (p @ ''-'') @ [Star digit_class]) (p @ ''-'' @ ds @ ''-'' @ rest))
       = Some (p @ ''-'' @ ds)
     \<and> fst (extract_task (''TCRM-'' @ ds @ ''-'' @ rest) w) = Inr (''TCRM-'' @ ds)"
    by simp
qed

theorem ticket_id_is_prefix_and_digits_witness:
  "in_class CHR ''4'' digit_class \<and> in_class CHR ''2'' digit_class
   \<and> map_option group0
       (re_match (lits (''TICKET'' @ ''-'') @ [Star digit_class])
          (''TICKET'' @ ''-'' @ ''42'' @ ''-'' @ ''fix-bug''))
       = Some ''TICKET-42''
   \<and> fst (extract_task ''TCRM-42-fix-bug'' start) = Inr ''TCRM-42''"
  using ticket_id_is_prefix_and_digits [of "''42''" "''TICKET''" "''fix-bug''" start]
  by (simp add: digit_class_def)

text \<open>
  C9. The pattern ends in \<^verbatim>\<open>[0-9]*\<close> and is anchored at the start only: every branch name
  that begins with \<open>TCRM-\<close> passes the check of the pattern, and the task is \<open>TCRM-\<close> followed by the longest
  run of digits that comes next, which is the bare \<open>TCRM-\<close> when no digit follows.
\<close>

theorem bare_prefix_is_accepted:
  "fst (extract_task (''TCRM-'' @ s) w)
     = Inr (''TCRM-'' @ takeWhile (\<lambda>c. in_class c digit_class) s)
   \<and> ((s = [] \<or> \<not> in_class (hd s) digit_class)
        \<longrightarrow> fst (extract_task (''TCRM-'' @ s) w) = Inr ''TCRM-'')"
proof -
  have "s = [] \<or> \<not> in_class (hd s) digit_class
      \<Longrightarrow> takeWhile (\<lambda>c. in_class c digit_class) s = []"
    by (cases s) auto
  then show ?thesis
    unfolding extract_task_prefix by auto
qed

theorem bare_prefix_is_accepted_witness:
  "\<not> in_class (hd ''fix-bug'') digit_class
   \<and> fst (extract_task ''TCRM-fix-bug'' start) = Inr ''TCRM-''"
  using bare_prefix_is_accepted [of "''fix-bug''" start]
  by (simp add: digit_class_def)

section \<open>The two checks before any network call\<close>

text \<open>
  C5. Whenever the current branch name does not match the ticket pattern, the run ends with
  \<open>exit(1)\<close>, so with a non-zero exit code, after having printed an error line (the last line
  printed starts with the red colour code) and without a single HTTP exchange. This holds
  for every environment, also when a token is missing or the branch is the target branch,
  which stop the run earlier in the same way.
\<close>

theorem unmatched_branch_exits:
  assumes "re_match TASK_NAME_REGEX (get_current_branch rt) = None"
  shows "fst (script rt start) = Inl (SystemExit 1)
       \<and> exit_code (fst (script rt start)) \<noteq> 0
       \<and> exchanges (snd (script rt start)) = []
       \<and> stdout (snd (script rt start)) \<noteq> []
       \<and> prefix RED (last (stdout (snd (script rt start))))"
  using assms
  by (simp add: script_def main_def read_branch_def extract_task_def action_defs start_def
      exit_code_def split: option.splits)

theorem unmatched_branch_exits_witness:
  "re_match TASK_NAME_REGEX
      (get_current_branch (example_runtime ''feature-x'' ''r'' (scripted []))) = None
   \<and> fst (script (example_runtime ''feature-x'' ''r'' (scripted [])) start)
       = Inl (SystemExit 1)
   \<and> exit_code (fst (script (example_runtime ''feature-x'' ''r'' (scripted [])) start)) \<noteq> 0
   \<and> exchanges (snd (script (example_runtime ''feature-x'' ''r'' (scripted [])) start)) = []
   \<and> stdout (snd (script (example_runtime ''feature-x'' ''r'' (scripted [])) start)) \<noteq> []
   \<and> prefix RED
        (last (stdout (snd (script (example_runtime ''feature-x'' ''r'' (scripted [])) start))))"
proof -
  have h: "re_match TASK_NAME_REGEX
      (get_current_branch (example_runtime ''feature-x'' ''r'' (scripted []))) = None"
    by (simp add: re_match_def TASK_NAME_REGEX_def lits_def get_current_branch_def
        example_runtime_def strip_nl_def)
  from unmatched_branch_exits [OF h] h show ?thesis by blast
qed

text \<open>
  C6. When the current branch is the target branch, the run ends with \<open>exit(1)\<close>, a non-zero
  exit code, and no HTTP exchange has been made.
\<close>

theorem target_branch_exits:
  assumes "get_current_branch rt = TARGET_BRANCH"
  shows "fst (script rt start) = Inl (SystemExit 1)
       \<and> exit_code (fst (script rt start)) \<noteq> 0
       \<and> exchanges (snd (script rt start)) = []"
  using assms
  by (simp add: script_def main_def read_branch_def action_defs start_def
      exit_code_def split: option.splits)

theorem target_branch_exits_witness:
  "get_current_branch (example_runtime ''develop'' ''r'' (scripted [])) = TARGET_BRANCH
   \<and> fst (script (example_runtime ''develop'' ''r'' (scripted [])) start) = Inl (SystemExit 1)
   \<and> exit_code (fst (script (example_runtime ''develop'' ''r'' (scripted [])) start)) \<noteq> 0
   \<and> exchanges (snd (script (example_runtime ''develop'' ''r'' (scripted [])) start)) = []"
proof -
  have h: "get_current_branch (example_runtime ''develop'' ''r'' (scripted [])) = TARGET_BRANCH"
    by (simp add: get_current_branch_def example_runtime_def strip_nl_def TARGET_BRANCH_def)
  from target_branch_exits [OF h] h show ?thesis by blast
qed

section \<open>HTTP calls\<close>



text \<open>The outcomes of one call, case by case.\<close>

lemma send_refused:
  assumes "request_error \<lparr>rq_method = m, rq_host = h, rq_path = p, rq_headers = hs,
      rq_body = b\<rparr> = Some ex"
  shows "send_https_request rt m h p hs b e w = (Inl ex, w)"
  using assms by (simp add: send_https_request_def)

lemma send_answered:
  assumes "request_error \<lparr>rq_method = m, rq_host = h, rq_path = p, rq_headers = hs,
      rq_body = b\<rparr> = None"
  shows "send_https_request rt m h p hs b e w =
     (let rq = \<lparr>rq_method = m, rq_host = h, rq_path = p, rq_headers = hs, rq_body = b\<rparr>;
          response = server rt (exchanges w) rq;
          w' = w\<lparr>exchanges := exchanges w @ [\<lparr>sent = rq, expected = e, received = response\<rparr>]\<rparr>
      in (if status response \<noteq> e then
            (case text_body response of
               None \<Rightarrow> Inl UnicodeDecodeError
             | Some decoded \<Rightarrow>
                 Inl (Exception
                    (RED @ ''Request failed'' @ NC @ NL
                     @ ''request: '' @ m @ '' https://'' @ h @ p @ NL @ b @ NL @ NL
                     @ ''response status: '' @ str_nat (status response) @ NL
                     @ ''response body: '' @ decoded)))
          else (case payload response of None \<Rightarrow> Inl (load_error response) | Some j \<Rightarrow> Inr j), w'))"
  using assms by (simp add: send_https_request_def Let_def split: option.splits)

text \<open>A request is accepted when its path has only characters of an accepted path, its
  method is printable ASCII and its headers are well formed.\<close>

lemma request_accepted:
  assumes "request_error \<lparr>rq_method = m, rq_host = h, rq_path = p, rq_headers = hs,
      rq_body = b\<rparr> = None"
    and "set p' \<subseteq> set p"
    and "\<not> list_ex (\<lambda>c. of_char c < (0x20::nat) \<or> (0x80::nat) \<le> of_char c) m'"
    and "headers_error hs' = None"
  shows "request_error \<lparr>rq_method = m', rq_host = h', rq_path = p', rq_headers = hs',
      rq_body = b'\<rparr> = None"
  using assms by (auto simp: request_error_def list_ex_iff split: if_splits)

text \<open>A call whose result is only read: either the request is refused and nothing changes,
  or one exchange is added and nothing is printed.\<close>

lemma call_cases:
  assumes "and_then (send_https_request rt m h p hs b e) (\<lambda>resp. lift (g resp)) w = (r, w')"
  shows "(\<exists>ex. request_error \<lparr>rq_method = m, rq_host = h, rq_path = p, rq_headers = hs,
              rq_body = b\<rparr> = Some ex \<and> r = Inl ex \<and> w' = w)
     \<or> (request_error \<lparr>rq_method = m, rq_host = h, rq_path = p, rq_headers = hs,
              rq_body = b\<rparr> = None
        \<and> (\<exists>x. exchanges w' = exchanges w @ [x] \<and> stdout w' = stdout w
              \<and> sent x = \<lparr>rq_method = m, rq_host = h, rq_path = p, rq_headers = hs,
                    rq_body = b\<rparr>
              \<and> (\<forall>j. status (received x) = e \<and> payload (received x) = Some j
                     \<longrightarrow> r = g j)))"
proof (cases "request_error \<lparr>rq_method = m, rq_host = h, rq_path = p, rq_headers = hs,
              rq_body = b\<rparr>")
  case None
  with assms show ?thesis
    by (auto simp: send_answered[OF None] and_then_def lift_def Let_def
        split: if_splits option.splits)
next
  case (Some ex)
  with assms show ?thesis
    by (simp add: send_refused[OF Some] and_then_def)
qed














lemmas run_defs = script_def main_def read_branch_def extract_task_def resolve_project_def
  find_or_create_mr_def link_mr_to_task_def get_project_id_def get_user_id_def
  get_already_exist_mr_link_def create_mr_def get_task_title_def
  is_issue_link_already_exist_def add_jira_issue_link_def send_https_request_def
  request_error_def whitespace_def
  create_jira_issue_link_request_body_def create_mr_request_body_def
  get_service_name_from_def get_current_branch_def strip_nl_def fmt_group_def bindE_def
  re_match_def re_search_def mk_match_def group0_def group1_def lits_def
  TASK_NAME_REGEX_def SERVICE_NAME_REGEX_def PROJECT_NAME_REGEX_def
  digit_class_def service_class_def project_class_def
  example_runtime_def example_tokens_def scripted_def ok_json_def start_def
  TARGET_BRANCH_def GITLAB_HOST_def GITLAB_API_VERSION_def JIRA_HOST_def JIRA_API_VERSION_def





section \<open>The display title and the link to the task\<close>

lemma fst_eqD: "fst p = a \<Longrightarrow> \<exists>b. p = (a, b)"
  by (cases p) simp

text \<open>
  C10. Take a merge-request URL: some prefix, a slash, the repository segment (without a
  slash), the text \<open>/-/merge_requests\<close> (which occurs once in the URL) and a rest. When the
  repository segment has a character outside \<^verbatim>\<open>[a-zA-Z\-]\<close>, deriving the display title
  finds no match and raises \<open>AttributeError\<close>; \<open>add_jira_issue_link\<close> raises it before anything
  is sent, and the linking step of \<open>main\<close>, once the link is found not to be listed, ends with
  this exception (a traceback, exit status 1) and not with the \<open>exit(1)\<close> of the script's own
  error paths.
\<close>

theorem title_derivation_raises:
  assumes url: "url = pre @ ''/'' @ seg @ ''/-/merge_requests'' @ post"
    and seg: "CHR ''/'' \<notin> set seg"
    and once: "length (occurrences ''/-/merge_requests'' url 0) = 1"
    and bad: "\<exists>c\<in>set seg. \<not> in_class c service_class"
  shows "get_service_name_from (JStr url) = Inl AttributeError
       \<and> add_jira_issue_link rt tok task (JStr url) w = (Inl AttributeError, w)
       \<and> (fst (is_issue_link_already_exist rt tok task (JStr url)
                  (snd (print ''>>> Check if MR link in task is already exist...'' w)))
             = Inr False
            \<longrightarrow> fst (link_mr_to_task rt tok task (JStr url) w) = Inl AttributeError
              \<and> exit_code (fst (link_mr_to_task rt tok task (JStr url) w)) = 1
              \<and> fst (link_mr_to_task rt tok task (JStr url) w) \<noteq> Inl (SystemExit 1))"
proof -
  have name: "get_service_name_from (JStr url) = Inl AttributeError"
    using service_name_of_segment[OF url seg once] bad by auto
  then have add: "add_jira_issue_link rt tok task (JStr url) w' = (Inl AttributeError, w')" for w'
    by (simp add: add_jira_issue_link_def create_jira_issue_link_request_body_def bindE_def
        action_defs)
  have "fst (link_mr_to_task rt tok task (JStr url) w) = Inl AttributeError"
    if "fst (is_issue_link_already_exist rt tok task (JStr url)
                  (snd (print ''>>> Check if MR link in task is already exist...'' w)))
             = Inr False"
  proof -
    from fst_eqD[OF that] obtain w1 where "is_issue_link_already_exist rt tok task (JStr url)
        (snd (print ''>>> Check if MR link in task is already exist...'' w)) = (Inr False, w1)"
      by blast
    then show ?thesis
      by (simp add: link_mr_to_task_def and_then_def print_def add)
  qed
  with name add show ?thesis by (simp add: exit_code_def)
qed

theorem title_derivation_raises_witness:
  "\<not> in_class CHR ''2'' service_class
   \<and> get_service_name_from (JStr ''https://gitlab.com/group/service2/-/merge_requests/7'')
       = Inl AttributeError
   \<and> fst (link_mr_to_task (example_runtime ''TCRM-1-x'' ''r'' (scripted [ok_json (JArr [])]))
            example_tokens ''TCRM-1''
            (JStr ''https://gitlab.com/group/service2/-/merge_requests/7'') start)
       = Inl AttributeError"
proof -
  let ?rt = "example_runtime ''TCRM-1-x'' ''r'' (scripted [ok_json (JArr [])])"
  have 1: "''https://gitlab.com/group/service2/-/merge_requests/7''
      = ''https://gitlab.com/group'' @ ''/'' @ ''service2'' @ ''/-/merge_requests'' @ ''/7''"
    by simp
  have 2: "CHR ''/'' \<notin> set ''service2''" by simp
  have 3: "length (occurrences ''/-/merge_requests''
      ''https://gitlab.com/group/service2/-/merge_requests/7'' 0) = 1"
    by simp
  have c: "\<not> in_class CHR ''2'' service_class" by (simp add: service_class_def)
  then have 4: "\<exists>c\<in>set ''service2''. \<not> in_class c service_class" by simp
  have 5: "fst (is_issue_link_already_exist ?rt example_tokens ''TCRM-1''
      (JStr ''https://gitlab.com/group/service2/-/merge_requests/7'')
      (snd (print ''>>> Check if MR link in task is already exist...'' start))) = Inr False"
    by (simp add: run_defs action_defs)
  from title_derivation_raises[OF 1 2 3 4, of ?rt example_tokens "''TCRM-1''" start] 5 c
  show ?thesis by blast
qed

text \<open>
  C8. The display title is claimed to be the path segment before \<open>/-/merge_requests\<close>. The
  example of the specification evaluates to \<open>my-service\<close>, but for a repository named
  \<open>service2\<close> the function raises \<open>AttributeError\<close> instead of returning \<open>service2\<close>: the class
  of the pattern leaves the digits out, which the pattern of \<open>get_project_id\<close> for the same
  name accepts.
\<close>

theorem service_name_with_digit:
  "get_service_name_from (JStr ''https://host/group/service2/-/merge_requests/7'')
     = Inl AttributeError
   \<and> get_service_name_from (JStr ''https://host/group/my-service/-/merge_requests/7'')
     = Inr (JStr ''my-service'')"
  by (simp add: run_defs)

text \<open>On a listing whose entries all have an \<open>object\<close> with a \<open>url\<close>, the loop answers whether
  one of these URLs equals the link.\<close>

lemma link_listed_iff:
  assumes "\<forall>l\<in>set ls. \<exists>obj url. getitem l ''object'' = Inr obj \<and> getitem obj ''url'' = Inr url"
  shows "link_listed rt mr_link ls
     = Inr (\<exists>l\<in>set ls. \<exists>obj url. getitem l ''object'' = Inr obj
              \<and> getitem obj ''url'' = Inr url \<and> py_equal rt url mr_link)"
  using assms
proof (induction ls)
  case Nil
  then show ?case by simp
next
  case (Cons l ls)
  from Cons.prems obtain obj url where l: "getitem l ''object'' = Inr obj"
    "getitem obj ''url'' = Inr url" by auto
  from Cons have IH: "link_listed rt mr_link ls
     = Inr (\<exists>l\<in>set ls. \<exists>obj url. getitem l ''object'' = Inr obj
              \<and> getitem obj ''url'' = Inr url \<and> py_equal rt url mr_link)"
    by simp
  show ?case
    using l IH by auto
qed

text \<open>The linking step when the title can be derived: nothing is sent for a listed link, and
  for a link that is not listed one POST goes to the tracker, with the URL and the derived
  title in its body.\<close>

lemma link_added_unless_listed:
  assumes listing: "is_issue_link_already_exist rt tok task mr_link
        (snd (print ''>>> Check if MR link in task is already exist...'' w)) = (Inr listed, w1)"
    and title: "get_service_name_from mr_link = Inr title"
    and run: "link_mr_to_task rt tok task mr_link w = (r, w')"
  shows "(listed \<longrightarrow> exchanges w' = exchanges w1)
     \<and> (\<not> listed \<longrightarrow>
          (\<exists>x. exchanges w' = exchanges w1 @ [x]
             \<and> rq_method (sent x) = ''POST'' \<and> rq_host (sent x) = JIRA_HOST
             \<and> rq_path (sent x) = ''/rest/api/'' @ JIRA_API_VERSION @ ''/issue/'' @ task
                  @ ''/remotelink''
             \<and> rq_body (sent x) = json_dumps rt (JObj
                  [(''object'', JObj
                     [(''url'', mr_link),
                      (''title'', title),
                      (''icon'', JObj [(''url16x16'',
                          JStr (''https://'' @ GITLAB_HOST @ ''/favicon.ico''))])])])))"
proof -
  let ?path = "''/rest/api/'' @ JIRA_API_VERSION @ ''/issue/'' @ task @ ''/remotelink''"
  from call_cases[OF listing[unfolded is_issue_link_already_exist_def]]
  have listed: "request_error \<lparr>rq_method = ''GET'', rq_host = JIRA_HOST, rq_path = ?path,
      rq_headers = [(''Authorization'', ''Bearer '' @ JIRA_TOKEN tok)], rq_body = []\<rparr> = None"
    by auto
  then have "headers_error [(''Authorization'', ''Bearer '' @ JIRA_TOKEN tok)] = None"
    by (simp add: request_error_def split: if_splits)
  then have "headers_error [(''Authorization'', ''Bearer '' @ JIRA_TOKEN tok),
          (''Content-Type'', ''application/json'')] = None"
    by (simp add: whitespace_def split: if_splits)
  then have "request_error \<lparr>rq_method = ''POST'', rq_host = JIRA_HOST, rq_path = ?path,
      rq_headers = [(''Authorization'', ''Bearer '' @ JIRA_TOKEN tok),
          (''Content-Type'', ''application/json'')], rq_body = b\<rparr> = None" for b
    by (intro request_accepted[OF listed]) simp_all
  note posted = send_answered[OF this, simplified]
  from assms show ?thesis
    by (auto simp: link_mr_to_task_def add_jira_issue_link_def
        create_jira_issue_link_request_body_def bindE_def posted
        and_then_def print_def lift_def Let_def split: if_splits option.splits)
qed

text \<open>
  C2. The link is claimed to be added exactly once whenever no listed link has the URL of the
  merge request. With a ticket that has no remote link and the merge request of a repository
  named \<open>service2\<close>, the linking step sends the one GET that lists the links and then ends
  with \<open>AttributeError\<close>: no POST is made.
\<close>

theorem link_not_added_for_digit_name:
  "fst (link_mr_to_task (example_runtime ''TCRM-1-x'' ''r'' (scripted [ok_json (JArr [])]))
          example_tokens ''TCRM-1''
          (JStr ''https://gitlab.com/group/service2/-/merge_requests/7'') start)
     = Inl AttributeError
   \<and> map (\<lambda>x. rq_method (sent x))
        (exchanges (snd (link_mr_to_task
           (example_runtime ''TCRM-1-x'' ''r'' (scripted [ok_json (JArr [])]))
           example_tokens ''TCRM-1''
           (JStr ''https://gitlab.com/group/service2/-/merge_requests/7'') start)))
     = [''GET'']"
  by (simp add: run_defs action_defs)

section \<open>Resolving the project id\<close>

lemma find_project_step:
  assumes "has_key q ''ssh_url_to_repo''" and "has_key q ''http_url_to_repo''"
  shows "find_project u (q # ps)
     = (if clone_url_is u q then getitem q ''id'' else find_project u ps)"
proof -
  from assms obtain s h where "getitem q ''ssh_url_to_repo'' = Inr s"
    "getitem q ''http_url_to_repo'' = Inr h"
    by (auto simp: has_key_def split: sum.splits)
  then show ?thesis
    by (auto simp: clone_url_is_def)
qed

lemma find_project_none:
  assumes "\<forall>p\<in>set ps. has_key p ''ssh_url_to_repo'' \<and> has_key p ''http_url_to_repo''"
    and "\<forall>p\<in>set ps. \<not> clone_url_is u p"
  shows "find_project u ps
     = Inl (Exception (RED @ ''Cannot find project whith url:'' @ NC @ '' '' @ u))"
  using assms
proof (induction ps)
  case Nil
  then show ?case by simp
next
  case (Cons q ps)
  then show ?case by (simp add: find_project_step del: find_project.simps)
qed

lemma find_project_first:
  assumes "\<forall>p\<in>set ps. has_key p ''ssh_url_to_repo'' \<and> has_key p ''http_url_to_repo''"
    and "p \<in> set ps" and "clone_url_is u p"
    and "\<forall>q\<in>set ps. clone_url_is u q \<longrightarrow> q = p"
  shows "find_project u ps = getitem p ''id''"
  using assms
proof (induction ps)
  case Nil
  then show ?case by simp
next
  case (Cons q ps)
  from Cons.prems(1) have step: "find_project u (q # ps)
     = (if clone_url_is u q then getitem q ''id'' else find_project u ps)"
    by (intro find_project_step) simp_all
  show ?case
  proof (cases "clone_url_is u q")
    case True
    with Cons.prems(4) have "q = p" by simp
    with True step show ?thesis by simp
  next
    case False
    with Cons.prems(2,3) have "p \<in> set ps" by auto
    moreover from Cons.prems(1) have "\<forall>p\<in>set ps. has_key p ''ssh_url_to_repo''
        \<and> has_key p ''http_url_to_repo''" by simp
    moreover from Cons.prems(4) have "\<forall>q\<in>set ps. clone_url_is u q \<longrightarrow> q = p" by simp
    ultimately have "find_project u ps = getitem p ''id''"
      using Cons.IH Cons.prems(3) by blast
    with False step show ?thesis by simp
  qed
qed

text \<open>
  C3. Let \<open>get_project_id\<close> have made its search (the one exchange it adds) and received
  status 200 with a JSON list of entries that all have the two clone URL fields. When exactly
  one entry has the remote URL of the local repository as its SSH or HTTPS clone URL, the
  result is the \<open>id\<close> of that entry. When no entry has it, the call raises the
  \<open>Exception\<close> "Cannot find project" whose message ends with the remote URL searched for.
\<close>

theorem project_id_of_matching_entry:
  assumes run: "get_project_id rt tok w = (r, w')"
    and sent: "exchanges w' = exchanges w @ [x]"
    and ok: "status (received x) = 200"
    and list: "payload (received x) = Some (JArr ps)"
    and wf: "\<forall>p\<in>set ps. has_key p ''ssh_url_to_repo'' \<and> has_key p ''http_url_to_repo''"
  shows "((\<forall>p\<in>set ps. \<not> clone_url_is (strip_nl (git_remote_get_url_origin rt)) p)
          \<longrightarrow> r = Inl (Exception (RED @ ''Cannot find project whith url:'' @ NC @ '' ''
                                   @ strip_nl (git_remote_get_url_origin rt))))
       \<and> (\<forall>p i. p \<in> set ps \<and> clone_url_is (strip_nl (git_remote_get_url_origin rt)) p
              \<and> (\<forall>q\<in>set ps. clone_url_is (strip_nl (git_remote_get_url_origin rt)) q
                     \<longrightarrow> q = p)
              \<and> getitem p ''id'' = Inr i
            \<longrightarrow> r = Inr i)"
proof -
  let ?u = "strip_nl (git_remote_get_url_origin rt)"
  obtain m where m: "re_search PROJECT_NAME_REGEX ?u = Some m"
  proof (cases "re_search PROJECT_NAME_REGEX ?u")
    case None
    with run have "w' = w" by (simp add: get_project_id_def raise_def)
    with sent show ?thesis by simp
  next
    case (Some m)
    then show ?thesis by (rule that)
  qed
  obtain path where call: "get_project_id rt tok w
      = and_then (send_https_request rt ''GET'' GITLAB_HOST path
                    [(''PRIVATE-TOKEN'', GITLAB_TOKEN tok)] [] 200)
          (\<lambda>response. lift (bindE (py_iter response) (find_project ?u))) w"
    using m by (simp add: get_project_id_def Let_def)
  obtain j w1 where snd: "send_https_request rt ''GET'' GITLAB_HOST path
      [(''PRIVATE-TOKEN'', GITLAB_TOKEN tok)] [] 200 w = (j, w1)"
    by (cases "send_https_request rt ''GET'' GITLAB_HOST path
      [(''PRIVATE-TOKEN'', GITLAB_TOKEN tok)] [] 200 w")
  let ?rq = "\<lparr>rq_method = ''GET'', rq_host = GITLAB_HOST, rq_path = path,
      rq_headers = [(''PRIVATE-TOKEN'', GITLAB_TOKEN tok)], rq_body = []\<rparr>"
  have w': "w' = w1"
    using run call snd by (auto simp: and_then_def lift_def split: sum.splits)
  have accepted: "request_error ?rq = None"
  proof (cases "request_error ?rq")
    case (Some ex)
    from send_refused[OF Some, of rt 200 w] snd have "w1 = w" by simp
    with w' sent show ?thesis by simp
  qed
  note answered = send_answered[OF accepted, of rt 200 w]
  have w1: "exchanges w1 = exchanges w @ [\<lparr>sent = ?rq, expected = 200,
      received = server rt (exchanges w) ?rq\<rparr>]"
    using snd by (auto simp: answered Let_def)
  with w' sent have x: "received x = server rt (exchanges w) ?rq"
    by auto
  with ok list snd have "j = Inr (JArr ps)"
    by (auto simp: answered Let_def)
  with run call snd have r: "r = find_project ?u ps"
    by (simp add: and_then_def lift_def bindE_def)
  have none: "(\<forall>p\<in>set ps. \<not> clone_url_is ?u p)
          \<longrightarrow> r = Inl (Exception (RED @ ''Cannot find project whith url:'' @ NC @ '' '' @ ?u))"
    unfolding r using find_project_none[OF wf] by blast
  have one: "r = Inr i" if "p \<in> set ps" "clone_url_is ?u p"
      "\<forall>q\<in>set ps. clone_url_is ?u q \<longrightarrow> q = p" "getitem p ''id'' = Inr i" for p i
    unfolding r using find_project_first[OF wf that(1,2,3)] that(4) by simp
  from none one show ?thesis by blast
qed


theorem project_id_of_matching_entry_witness:
  "clone_url_is ''git@gitlab.com:group/service.git'' project_service
   \<and> \<not> clone_url_is ''git@gitlab.com:group/service.git'' project_other
   \<and> fst (get_project_id
            (example_runtime ''TCRM-1-x'' ''git@gitlab.com:group/service.git''
               (scripted [ok_json (JArr [project_other, project_service])]))
            example_tokens start) = Inr (JNum 42)
   \<and> fst (get_project_id
            (example_runtime ''TCRM-1-x'' ''git@gitlab.com:group/service.git''
               (scripted [ok_json (JArr [project_other])]))
            example_tokens start)
       = Inl (Exception (RED @ ''Cannot find project whith url:'' @ NC @ '' ''
                         @ ''git@gitlab.com:group/service.git''))"
proof -
  let ?u = "''git@gitlab.com:group/service.git''"
  let ?rt = "example_runtime ''TCRM-1-x'' ?u
               (scripted [ok_json (JArr [project_other, project_service])])"
  let ?rt' = "example_runtime ''TCRM-1-x'' ?u (scripted [ok_json (JArr [project_other])])"
  have yes: "clone_url_is ?u project_service" and no: "\<not> clone_url_is ?u project_other"
    by (simp_all add: clone_url_is_def project_service_def project_other_def)
  have u: "strip_nl (git_remote_get_url_origin ?rt) = ?u"
    "strip_nl (git_remote_get_url_origin ?rt') = ?u"
    by (simp_all add: example_runtime_def strip_nl_def)
  have wf: "\<forall>p\<in>set [project_other, project_service].
      has_key p ''ssh_url_to_repo'' \<and> has_key p ''http_url_to_repo''"
    "\<forall>p\<in>set [project_other]. has_key p ''ssh_url_to_repo'' \<and> has_key p ''http_url_to_repo''"
    by (simp_all add: has_key_def project_service_def project_other_def)
  have "\<exists>x. exchanges (snd (get_project_id ?rt example_tokens start)) = exchanges start @ [x]
          \<and> status (received x) = 200
          \<and> payload (received x) = Some (JArr [project_other, project_service])"
    by (simp add: run_defs action_defs)
  then obtain x where x: "exchanges (snd (get_project_id ?rt example_tokens start))
      = exchanges start @ [x]" "status (received x) = 200"
      "payload (received x) = Some (JArr [project_other, project_service])"
    by blast
  have "\<exists>x. exchanges (snd (get_project_id ?rt' example_tokens start)) = exchanges start @ [x]
          \<and> status (received x) = 200
          \<and> payload (received x) = Some (JArr [project_other])"
    by (simp add: run_defs action_defs)
  then obtain x' where x': "exchanges (snd (get_project_id ?rt' example_tokens start))
      = exchanges start @ [x']" "status (received x') = 200"
      "payload (received x') = Some (JArr [project_other])"
    by blast
  have id: "getitem project_service ''id'' = Inr (JNum 42)"
    by (simp add: project_service_def)
  have uniq: "\<forall>q\<in>set [project_other, project_service]. clone_url_is ?u q \<longrightarrow> q = project_service"
    using no by simp
  from project_id_of_matching_entry[OF prod.collapse[symmetric] x wf(1), unfolded u,
      THEN conjunct2, rule_format, of project_service "JNum 42"] yes uniq id
  have a: "fst (get_project_id ?rt example_tokens start) = Inr (JNum 42)" by simp
  from project_id_of_matching_entry[OF prod.collapse[symmetric] x' wf(2), unfolded u,
      THEN conjunct1] no
  have b: "fst (get_project_id ?rt' example_tokens start)
       = Inl (Exception (RED @ ''Cannot find project whith url:'' @ NC @ '' '' @ ?u))" by simp
  from yes no a b show ?thesis by blast
qed

section \<open>Finding or creating the merge request\<close>

lemma print_said: "print s w = (Inr (), said [s] w)"
  by (simp add: print_def said_def)

lemma said_said: "said b (said a w) = said (a @ b) w"
  by (simp add: said_def)

lemma exchanges_said: "exchanges (said l w) = exchanges w"
  by (simp add: said_def)

lemma not_create_get: "rq_method (sent x) = ''GET'' \<Longrightarrow> \<not> is_create_mr x"
  by (simp add: is_create_mr_def)

lemma not_create_jira: "rq_host (sent x) = JIRA_HOST \<Longrightarrow> \<not> is_create_mr x"
  by (simp add: is_create_mr_def JIRA_HOST_def GITLAB_HOST_def)

subsection \<open>Steps that create nothing\<close>

lemma creates_at_mostD:
  assumes "creates_at_most n a" and "a w = (r, w')"
  shows "\<exists>xs. exchanges w' = exchanges w @ xs \<and> length (filter is_create_mr xs) \<le> n"
proof -
  from assms(1) have "\<exists>xs. exchanges (snd (a w)) = exchanges w @ xs
      \<and> length (filter is_create_mr xs) \<le> n"
    unfolding creates_at_most_def by (rule spec)
  with assms(2) show ?thesis by simp
qed

lemma quiet_ret: "creates_at_most 0 (ret x)"
  by (simp add: creates_at_most_def ret_def)

lemma quiet_raise: "creates_at_most 0 (raise ex)"
  by (simp add: creates_at_most_def raise_def)

lemma quiet_exit: "creates_at_most 0 (py_exit n)"
  by (simp add: py_exit_def quiet_raise)

lemma quiet_lift: "creates_at_most 0 (lift r)"
  by (simp add: creates_at_most_def lift_def)

lemma quiet_print: "creates_at_most 0 (print s)"
  by (simp add: creates_at_most_def print_def)

lemma creates_seq:
  assumes "creates_at_most m a" and "\<And>x. creates_at_most n (f x)"
  shows "creates_at_most (m + n) (and_then a f)"
  unfolding creates_at_most_def
proof
  fix w :: world
  obtain r w1 where a: "a w = (r, w1)" by (cases "a w")
  from creates_at_mostD[OF assms(1) a] obtain xs where xs: "exchanges w1 = exchanges w @ xs"
    "length (filter is_create_mr xs) \<le> m" by blast
  show "\<exists>xs. exchanges (snd (and_then a f w)) = exchanges w @ xs
      \<and> length (filter is_create_mr xs) \<le> m + n"
  proof (cases r)
    case (Inl ex)
    with a xs show ?thesis by (simp add: and_then_def)
  next
    case (Inr v)
    obtain r2 w2 where f: "f v w1 = (r2, w2)" by (cases "f v w1")
    from creates_at_mostD[OF assms(2) f] obtain ys where ys: "exchanges w2 = exchanges w1 @ ys"
      "length (filter is_create_mr ys) \<le> n" by blast
    from xs ys have "exchanges w2 = exchanges w @ (xs @ ys)
        \<and> length (filter is_create_mr (xs @ ys)) \<le> m + n"
      by simp
    with a Inr f show ?thesis by (auto simp: and_then_def)
  qed
qed

lemma quiet_seq:
  "creates_at_most 0 a \<Longrightarrow> (\<And>x. creates_at_most 0 (f x)) \<Longrightarrow> creates_at_most 0 (and_then a f)"
  using creates_seq[of 0 a 0 f] by simp

lemma quiet_then_once:
  "creates_at_most 0 a \<Longrightarrow> (\<And>x. creates_at_most 1 (f x)) \<Longrightarrow> creates_at_most 1 (and_then a f)"
  using creates_seq[of 0 a 1 f] by simp

lemma once_then_quiet:
  "creates_at_most 1 a \<Longrightarrow> (\<And>x. creates_at_most 0 (f x)) \<Longrightarrow> creates_at_most 1 (and_then a f)"
  using creates_seq[of 1 a 0 f] by simp

lemma quiet_once: "creates_at_most 0 a \<Longrightarrow> creates_at_most 1 a"
  unfolding creates_at_most_def by (meson le_trans zero_le_one)

lemma quiet_send:
  assumes "m = ''GET'' \<or> h = JIRA_HOST"
  shows "creates_at_most 0 (send_https_request rt m h p hs b e)"
  unfolding creates_at_most_def
proof
  fix w :: world
  show "\<exists>xs. exchanges (snd (send_https_request rt m h p hs b e w)) = exchanges w @ xs
      \<and> length (filter is_create_mr xs) \<le> 0"
  proof (cases "request_error \<lparr>rq_method = m, rq_host = h, rq_path = p, rq_headers = hs,
      rq_body = b\<rparr>")
    case (Some ex)
    then show ?thesis by (simp add: send_refused)
  next
    case None
    from assms show ?thesis
      by (auto simp: send_answered[OF None] Let_def not_create_get not_create_jira)
  qed
qed

lemma quiet_if:
  "(c \<Longrightarrow> creates_at_most 0 a) \<Longrightarrow> (\<not> c \<Longrightarrow> creates_at_most 0 b)
     \<Longrightarrow> creates_at_most 0 (if c then a else b)"
  by simp

lemma quiet_case_option:
  "(v = None \<Longrightarrow> creates_at_most 0 a) \<Longrightarrow> (\<And>x. v = Some x \<Longrightarrow> creates_at_most 0 (f x))
     \<Longrightarrow> creates_at_most 0 (case v of None \<Rightarrow> a | Some x \<Rightarrow> f x)"
  by (cases v) simp_all

lemmas quiet_intros = quiet_ret quiet_raise quiet_exit quiet_lift quiet_print quiet_seq
  quiet_if quiet_case_option

lemma quiet_read_branch: "creates_at_most 0 (read_branch rt)"
  unfolding read_branch_def Let_def by (intro quiet_intros)

lemma quiet_extract_task: "creates_at_most 0 (extract_task current_branch)"
  unfolding extract_task_def Let_def by (intro quiet_intros)

lemma quiet_resolve_project: "creates_at_most 0 (resolve_project rt tok)"
  unfolding resolve_project_def get_project_id_def Let_def
  by (intro quiet_intros quiet_send disjI1 refl)

lemma quiet_lookup:
  "creates_at_most 0 (get_already_exist_mr_link rt tok project_id current_branch target_branch)"
  unfolding get_already_exist_mr_link_def by (intro quiet_intros quiet_send disjI1 refl)

lemma quiet_title: "creates_at_most 0 (get_task_title rt tok task)"
  unfolding get_task_title_def by (intro quiet_intros quiet_send disjI1 refl)

lemma quiet_user: "creates_at_most 0 (get_user_id rt tok)"
  unfolding get_user_id_def by (intro quiet_intros quiet_send disjI1 refl)

lemma quiet_link: "creates_at_most 0 (link_mr_to_task rt tok task mr_link)"
  unfolding link_mr_to_task_def is_issue_link_already_exist_def add_jira_issue_link_def
  by (intro quiet_intros quiet_send disjI2 refl)

lemma quiet_rest:
  "creates_at_most 0 (and_then (link_mr_to_task rt tok task mr_link) (\<lambda>_. print s))"
  by (intro quiet_intros quiet_link)

lemma quietD:
  assumes "creates_at_most 0 a" and "a w = (r, w')"
  shows "\<exists>xs. exchanges w' = exchanges w @ xs \<and> filter is_create_mr xs = []"
  using creates_at_mostD[OF assms] by simp

subsection \<open>The lookup and the creation\<close>

text \<open>What the lookup returns on a response with the expected status: the \<open>web_url\<close> of the
  first entry of a list, and \<open>None\<close> for the empty list.\<close>

lemma lookup_result:
  assumes run: "get_already_exist_mr_link rt tok project_id current_branch target_branch w
      = (r, w')"
    and sent: "exchanges w' = exchanges w @ [x]"
    and ok: "status (received x) = 200"
    and list: "payload (received x) = Some (JArr ms)"
  shows "r = (case ms of [] \<Rightarrow> Inr JNull | m # _ \<Rightarrow> getitem m ''web_url'')"
proof -
  from call_cases[OF run[unfolded get_already_exist_mr_link_def]] sent
  obtain y where "exchanges w' = exchanges w @ [y]"
    and "\<forall>j. status (received y) = 200 \<and> payload (received y) = Some j
           \<longrightarrow> r = bindE (py_len j) (\<lambda>n.
                 if n > 0 then bindE (getitem0 j) (\<lambda>first. getitem first ''web_url'')
                 else Inr JNull)"
    by auto
  with sent ok list have "r = bindE (py_len (JArr ms)) (\<lambda>n.
      if n > 0 then bindE (getitem0 (JArr ms)) (\<lambda>first. getitem first ''web_url'')
      else Inr JNull)"
    by simp
  then show ?thesis
    by (cases ms) (simp_all add: bindE_def)
qed

text \<open>A lookup that returns a value was sent, and then the library accepts the request of
  \<open>create_mr\<close> too: the same headers, and a path made of characters of the path of the
  lookup.\<close>

lemma create_sends:
  assumes lookup: "get_already_exist_mr_link rt tok project_id current_branch target_branch w0
      = (Inr u, w1)"
    and create: "create_mr rt tok project_id title current_branch target_branch user_id squash
      remove_source_branch w = (r, w')"
  shows "\<exists>x. exchanges w' = exchanges w @ [x] \<and> is_create_mr x"
proof -
  let ?hs = "[(''PRIVATE-TOKEN'', GITLAB_TOKEN tok), (''Content-Type'', ''application/json'')]"
  let ?path = "''/api/'' @ GITLAB_API_VERSION @ ''/projects/'' @ py_format rt project_id
           @ ''/merge_requests''"
  let ?body = "create_mr_request_body rt title current_branch target_branch user_id squash
      remove_source_branch"
  from call_cases[OF lookup[unfolded get_already_exist_mr_link_def]]
  have looked: "request_error \<lparr>rq_method = ''GET'', rq_host = GITLAB_HOST,
      rq_path = ''/api/'' @ GITLAB_API_VERSION @ ''/projects/'' @ py_format rt project_id
           @ ''/merge_requests?'' @ ''state=opened''
           @ ''&source_branch='' @ current_branch @ ''&target_branch='' @ target_branch,
      rq_headers = ?hs, rq_body = []\<rparr> = None"
    by auto
  then have hs: "headers_error ?hs = None"
    by (simp add: request_error_def split: if_splits)
  have "request_error \<lparr>rq_method = ''POST'', rq_host = GITLAB_HOST, rq_path = ?path,
      rq_headers = ?hs, rq_body = ?body\<rparr> = None"
    by (rule request_accepted[OF looked _ _ hs]) auto
  with call_cases[OF create[unfolded create_mr_def]]
  obtain x where x: "exchanges w' = exchanges w @ [x]"
    "sent x = \<lparr>rq_method = ''POST'', rq_host = GITLAB_HOST, rq_path = ?path,
      rq_headers = ?hs, rq_body = ?body\<rparr>"
    by auto
  have "prefix (''/api/'' @ GITLAB_API_VERSION @ ''/projects/'') ?path"
    by simp
  moreover have "suffix ''/merge_requests'' ?path"
    by (intro suffix_appendI suffix_order.refl)
  ultimately have "is_create_mr x"
    unfolding is_create_mr_def x(2) request.select_convs by (intro conjI refl)
  with x(1) show ?thesis by blast
qed

text \<open>The step of \<open>main\<close> that finds or creates the merge request: it adds one exchange of
  \<open>create_mr\<close> when the lookup returns \<open>None\<close> and both the summary of the task (a string) and
  the user id are fetched, and none otherwise; a match is returned as it is.\<close>

lemma find_or_create_count:
  assumes lookup: "get_already_exist_mr_link rt tok project_id current_branch TARGET_BRANCH
        (said [''>>> Check if MR is already oppened...''] w) = (res, w4)"
    and run: "find_or_create_mr rt tok project_id current_branch task w = (r, w')"
  shows "\<exists>xs. exchanges w' = exchanges w @ xs
      \<and> length (filter is_create_mr xs)
          = (if res = Inr JNull
                \<and> (\<exists>summary w5 user_id w6.
                      get_task_title rt tok task
                        (said [''No open MR was found. A new one will be created'',
                               ''>>> Getting task title...''] w4)
                        = (Inr (JStr summary), w5)
                      \<and> get_user_id rt tok (said [task @ summary, ''>>> Creating MR...''] w5)
                        = (Inr user_id, w6))
             then 1 else 0)"
    and "\<forall>u. res = Inr u \<and> u \<noteq> JNull \<longrightarrow>
           r = Inr u
           \<and> w' = said [''MR already opened:'' @ NL @ BLUE @ py_format rt u @ NC] w4"
proof -
  let ?created = "res = Inr JNull
                \<and> (\<exists>summary w5 user_id w6.
                      get_task_title rt tok task
                        (said [''No open MR was found. A new one will be created'',
                               ''>>> Getting task title...''] w4)
                        = (Inr (JStr summary), w5)
                      \<and> get_user_id rt tok (said [task @ summary, ''>>> Creating MR...''] w5)
                        = (Inr user_id, w6))"
  note unfold = find_or_create_mr_def and_then_def print_said said_said lift_def ret_def
  from quietD[OF quiet_lookup lookup] obtain xs4 where xs4: "exchanges w4 = exchanges w @ xs4"
    "filter is_create_mr xs4 = []"
    by (auto simp: exchanges_said)
  show "\<forall>u. res = Inr u \<and> u \<noteq> JNull \<longrightarrow>
           r = Inr u
           \<and> w' = said [''MR already opened:'' @ NL @ BLUE @ py_format rt u @ NC] w4"
    using run lookup by (auto simp: unfold)
  show "\<exists>xs. exchanges w' = exchanges w @ xs
      \<and> length (filter is_create_mr xs) = (if ?created then 1 else 0)"
  proof (cases res)
    case (Inl ex)
    with run lookup have "w' = w4" by (auto simp: unfold)
    with xs4 Inl show ?thesis by simp
  next
    case (Inr u)
    show ?thesis
    proof (cases "u = JNull")
      case False
      with run lookup Inr have "exchanges w' = exchanges w4"
        by (auto simp: unfold exchanges_said)
      with xs4 Inr False show ?thesis by simp
    next
      case True
      note none = Inr[unfolded True]
      obtain rt5 w5 where title: "get_task_title rt tok task
            (said [''No open MR was found. A new one will be created'',
                   ''>>> Getting task title...''] w4) = (rt5, w5)"
        by (cases "get_task_title rt tok task
            (said [''No open MR was found. A new one will be created'',
                   ''>>> Getting task title...''] w4)")
      from quietD[OF quiet_title title] obtain xs5 where xs5: "exchanges w5 = exchanges w4 @ xs5"
        "filter is_create_mr xs5 = []"
        by (auto simp: exchanges_said)
      show ?thesis
      proof (cases "\<exists>summary. rt5 = Inr (JStr summary)")
        case False
        with run lookup none title have "w' = w5"
          by (cases rt5; cases "projr rt5") (auto simp: unfold)
        with xs4 xs5 False title show ?thesis by auto
      next
        case True
        then obtain summary where summary: "rt5 = Inr (JStr summary)" by blast
        note title = title[unfolded summary]
        obtain ru w6 where user: "get_user_id rt tok
            (said [task @ summary, ''>>> Creating MR...''] w5) = (ru, w6)"
          by (cases "get_user_id rt tok (said [task @ summary, ''>>> Creating MR...''] w5)")
        from quietD[OF quiet_user user] obtain xs6 where xs6: "exchanges w6 = exchanges w5 @ xs6"
          "filter is_create_mr xs6 = []"
          by (auto simp: exchanges_said)
        show ?thesis
        proof (cases ru)
          case (Inl ex)
          with run lookup none title user have "w' = w6"
            by (auto simp: unfold)
          with xs4 xs5 xs6 Inl title user show ?thesis by auto
        next
          case (Inr user_id)
          note user = user[unfolded Inr]
          obtain rc w7 where create: "create_mr rt tok project_id (task @ summary)
              current_branch TARGET_BRANCH user_id SQUASH REMOVE_SOURCE_BRANCH w6 = (rc, w7)"
            by (cases "create_mr rt tok project_id (task @ summary)
              current_branch TARGET_BRANCH user_id SQUASH REMOVE_SOURCE_BRANCH w6")
          from create_sends[OF lookup[unfolded none] create] obtain x
            where x: "exchanges w7 = exchanges w6 @ [x]" "is_create_mr x" by blast
          from run lookup none title user create have "exchanges w' = exchanges w7"
            by (cases rc) (auto simp: unfold exchanges_said)
          with xs4 xs5 xs6 x have "exchanges w' = exchanges w @ (xs4 @ xs5 @ xs6 @ [x])
              \<and> length (filter is_create_mr (xs4 @ xs5 @ xs6 @ [x])) = 1"
            by simp
          moreover from none title user have ?created by blast
          ultimately show ?thesis by (metis (full_types))
        qed
      qed
    qed
  qed
qed

subsection \<open>The whole run\<close>

lemma and_then_Inr: "a w = (Inr x, w1) \<Longrightarrow> and_then a f w = f x w1"
  by (simp add: and_then_def)

lemma and_then_Inl: "a w = (Inl ex, w1) \<Longrightarrow> and_then a f w = (Inl ex, w1)"
  by (simp add: and_then_def)

lemma find_or_create_at_most_once:
  "creates_at_most 1 (find_or_create_mr rt tok project_id current_branch task)"
  unfolding creates_at_most_def
proof
  fix w :: world
  obtain res w4 where lookup: "get_already_exist_mr_link rt tok project_id current_branch
      TARGET_BRANCH (said [''>>> Check if MR is already oppened...''] w) = (res, w4)"
    by (cases "get_already_exist_mr_link rt tok project_id current_branch
      TARGET_BRANCH (said [''>>> Check if MR is already oppened...''] w)")
  obtain r w' where run: "find_or_create_mr rt tok project_id current_branch task w = (r, w')"
    by (cases "find_or_create_mr rt tok project_id current_branch task w")
  from find_or_create_count(1)[OF lookup run] obtain xs n
    where "exchanges w' = exchanges w @ xs" "length (filter is_create_mr xs) = n" "n \<le> 1"
    by (metis le_refl zero_le_one)
  with run show "\<exists>xs. exchanges (snd (find_or_create_mr rt tok project_id current_branch task w))
      = exchanges w @ xs \<and> length (filter is_create_mr xs) \<le> 1"
    by auto
qed

lemma main_at_most_once: "creates_at_most 1 (main rt tok)"
  unfolding main_def
  by (intro quiet_then_once[OF quiet_read_branch] quiet_then_once[OF quiet_extract_task]
      quiet_then_once[OF quiet_resolve_project]
      once_then_quiet[OF find_or_create_at_most_once] quiet_rest)

lemma once_case_option:
  "(v = None \<Longrightarrow> creates_at_most 1 a) \<Longrightarrow> (\<And>x. v = Some x \<Longrightarrow> creates_at_most 1 (f x))
     \<Longrightarrow> creates_at_most 1 (case v of None \<Rightarrow> a | Some x \<Rightarrow> f x)"
  by (cases v) simp_all

lemma quiet_refusal: "creates_at_most 1 (and_then (print s) (\<lambda>_. py_exit 1))"
  by (intro quiet_once quiet_intros)

lemma script_at_most_once: "creates_at_most 1 (script rt)"
  unfolding script_def
  by (intro once_case_option quiet_refusal main_at_most_once)

lemma main_after_lookup:
  assumes branch: "read_branch rt w = (Inr current_branch, w1)"
    and task: "extract_task current_branch w1 = (Inr task, w2)"
    and project: "resolve_project rt tok w2 = (Inr project_id, w3)"
    and lookup: "get_already_exist_mr_link rt tok project_id current_branch TARGET_BRANCH
        (said [''>>> Check if MR is already oppened...''] w3) = (res, w4)"
    and run: "main rt tok w = (r, w')"
  shows "length (filter is_create_mr (added w w'))
       = (if res = Inr JNull
             \<and> (\<exists>summary w5 user_id w6.
                   get_task_title rt tok task
                     (said [''No open MR was found. A new one will be created'',
                            ''>>> Getting task title...''] w4)
                     = (Inr (JStr summary), w5)
                   \<and> get_user_id rt tok (said [task @ summary, ''>>> Creating MR...''] w5)
                     = (Inr user_id, w6))
          then 1 else 0)"
    and "\<forall>u. res = Inr u \<and> u \<noteq> JNull \<longrightarrow>
           (r, w') = and_then (link_mr_to_task rt tok task u)
                       (\<lambda>_. print (BLUE @ ''https://'' @ JIRA_HOST @ ''/browse/'' @ task @ NC))
                       (said [''MR already opened:'' @ NL @ BLUE @ py_format rt u @ NC] w4)"
proof -
  let ?rest = "\<lambda>mr_link. and_then (link_mr_to_task rt tok task mr_link)
      (\<lambda>_. print (BLUE @ ''https://'' @ JIRA_HOST @ ''/browse/'' @ task @ NC))"
  have m: "main rt tok w
      = and_then (find_or_create_mr rt tok project_id current_branch task) ?rest w3"
    unfolding main_def and_then_Inr[where a = "read_branch rt", OF branch] and_then_Inr[where a = "extract_task current_branch", OF task] and_then_Inr[where a = "resolve_project rt tok", OF project]
    by (rule refl)
  from quietD[OF quiet_read_branch branch] quietD[OF quiet_extract_task task]
    quietD[OF quiet_resolve_project project]
  obtain xs3 where xs3: "exchanges w3 = exchanges w @ xs3" "filter is_create_mr xs3 = []"
    by auto
  obtain r4 w4' where step: "find_or_create_mr rt tok project_id current_branch task w3
      = (r4, w4')"
    by (cases "find_or_create_mr rt tok project_id current_branch task w3")
  note fc = find_or_create_count[OF lookup step]
  from fc(1) obtain xs4 where xs4: "exchanges w4' = exchanges w3 @ xs4"
    "length (filter is_create_mr xs4)
       = (if res = Inr JNull
             \<and> (\<exists>summary w5 user_id w6.
                   get_task_title rt tok task
                     (said [''No open MR was found. A new one will be created'',
                            ''>>> Getting task title...''] w4)
                     = (Inr (JStr summary), w5)
                   \<and> get_user_id rt tok (said [task @ summary, ''>>> Creating MR...''] w5)
                     = (Inr user_id, w6))
          then 1 else 0)"
    by blast
  have "\<exists>xs5. exchanges w' = exchanges w4' @ xs5 \<and> filter is_create_mr xs5 = []"
  proof (cases r4)
    case (Inl ex)
    from run have "w' = w4'"
      unfolding m and_then_Inl[where a = "find_or_create_mr rt tok project_id current_branch task",
          OF step[unfolded Inl]] by simp
    then show ?thesis by simp
  next
    case (Inr link)
    from run have "?rest link w4' = (r, w')"
      unfolding m and_then_Inr[where a = "find_or_create_mr rt tok project_id current_branch task",
          OF step[unfolded Inr]] .
    from quietD[OF quiet_rest this] show ?thesis .
  qed
  then obtain xs5 where xs5: "exchanges w' = exchanges w4' @ xs5" "filter is_create_mr xs5 = []"
    by blast
  from xs3 xs4(1) xs5 have "added w w' = xs3 @ xs4 @ xs5"
    by (simp add: added_def)
  with xs3(2) xs5(2) have "length (filter is_create_mr (added w w'))
      = length (filter is_create_mr xs4)"
    by simp
  from this xs4(2) show "length (filter is_create_mr (added w w'))
       = (if res = Inr JNull
             \<and> (\<exists>summary w5 user_id w6.
                   get_task_title rt tok task
                     (said [''No open MR was found. A new one will be created'',
                            ''>>> Getting task title...''] w4)
                     = (Inr (JStr summary), w5)
                   \<and> get_user_id rt tok (said [task @ summary, ''>>> Creating MR...''] w5)
                     = (Inr user_id, w6))
          then 1 else 0)"
    by (rule trans)
  show "\<forall>u. res = Inr u \<and> u \<noteq> JNull \<longrightarrow>
           (r, w') = and_then (link_mr_to_task rt tok task u)
                       (\<lambda>_. print (BLUE @ ''https://'' @ JIRA_HOST @ ''/browse/'' @ task @ NC))
                       (said [''MR already opened:'' @ NL @ BLUE @ py_format rt u @ NC] w4)"
  proof (intro allI impI)
    fix u assume u: "res = Inr u \<and> u \<noteq> JNull"
    with fc(2) have "r4 = Inr u"
      and "w4' = said [''MR already opened:'' @ NL @ BLUE @ py_format rt u @ NC] w4"
      by blast+
    with step have "find_or_create_mr rt tok project_id current_branch task w3
        = (Inr u, said [''MR already opened:'' @ NL @ BLUE @ py_format rt u @ NC] w4)"
      by simp
    from run[unfolded m and_then_Inr[where a = "find_or_create_mr rt tok project_id current_branch task",
        OF this]]
    show "(r, w') = and_then (link_mr_to_task rt tok task u)
                       (\<lambda>_. print (BLUE @ ''https://'' @ JIRA_HOST @ ''/browse/'' @ task @ NC))
                       (said [''MR already opened:'' @ NL @ BLUE @ py_format rt u @ NC] w4)"
      by (rule sym)
  qed
qed

lemma str_int_42: "str_int 42 = ''42''"
  by code_simp

text \<open>
  C1, as the code has it. No run calls \<open>create_mr\<close> more than once. In a run that reaches the
  check for an open merge request of the branch, \<open>create_mr\<close> is called exactly once when the
  lookup returns no match (\<open>None\<close>) and the two fetches that come before the creation, of the
  summary of the task (a string) and of the user id, both succeed; in every other case it is
  not called. Whether the creation itself succeeds plays no part in this: a call of
  \<open>create_mr\<close> is the POST it sends, which the library accepts when it accepted the request
  of the lookup (lemma \<open>create_sends\<close>), whatever the answer to it is. The lookup returns
  the \<open>web_url\<close> of the first entry of the list it receives, and \<open>None\<close> for the empty list;
  when it returns a match, nothing is created and the rest of the run is the linking step
  for this URL.
\<close>

theorem create_once_iff_no_match:
  assumes run: "main rt tok w = (r, w')"
  shows "length (filter is_create_mr (added w w')) \<le> 1
     \<and> length (filter is_create_mr (exchanges (snd (script rt start)))) \<le> 1
     \<and> (\<forall>current_branch w1 task w2 project_id w3 res w4.
          read_branch rt w = (Inr current_branch, w1)
          \<and> extract_task current_branch w1 = (Inr task, w2)
          \<and> resolve_project rt tok w2 = (Inr project_id, w3)
          \<and> get_already_exist_mr_link rt tok project_id current_branch TARGET_BRANCH
               (said [''>>> Check if MR is already oppened...''] w3) = (res, w4)
          \<longrightarrow>
            length (filter is_create_mr (added w w'))
              = (if res = Inr JNull
                    \<and> (\<exists>summary w5 user_id w6.
                          get_task_title rt tok task
                            (said [''No open MR was found. A new one will be created'',
                                   ''>>> Getting task title...''] w4)
                            = (Inr (JStr summary), w5)
                          \<and> get_user_id rt tok
                              (said [task @ summary, ''>>> Creating MR...''] w5)
                            = (Inr user_id, w6))
                 then 1 else 0)
            \<and> (\<forall>x ms. exchanges w4 = exchanges w3 @ [x] \<and> status (received x) = 200
                   \<and> payload (received x) = Some (JArr ms)
                 \<longrightarrow> res = (case ms of [] \<Rightarrow> Inr JNull | m # _ \<Rightarrow> getitem m ''web_url''))
            \<and> (\<forall>u. res = Inr u \<and> u \<noteq> JNull \<longrightarrow>
                 filter is_create_mr (added w w') = []
                 \<and> (r, w') = and_then (link_mr_to_task rt tok task u)
                      (\<lambda>_. print (BLUE @ ''https://'' @ JIRA_HOST @ ''/browse/'' @ task @ NC))
                      (said [''MR already opened:'' @ NL @ BLUE @ py_format rt u @ NC] w4)))"
proof -
  from creates_at_mostD[OF main_at_most_once run]
  have 1: "length (filter is_create_mr (added w w')) \<le> 1"
    by (auto simp: added_def)
  from creates_at_mostD[OF script_at_most_once prod.collapse[symmetric], of rt start]
  have 2: "length (filter is_create_mr (exchanges (snd (script rt start)))) \<le> 1"
    by (auto simp: start_def)
  {
    fix current_branch w1 task w2 project_id w3 res w4
    assume reach: "read_branch rt w = (Inr current_branch, w1)
          \<and> extract_task current_branch w1 = (Inr task, w2)
          \<and> resolve_project rt tok w2 = (Inr project_id, w3)
          \<and> get_already_exist_mr_link rt tok project_id current_branch TARGET_BRANCH
               (said [''>>> Check if MR is already oppened...''] w3) = (res, w4)"
    then have branch: "read_branch rt w = (Inr current_branch, w1)"
      and task: "extract_task current_branch w1 = (Inr task, w2)"
      and project: "resolve_project rt tok w2 = (Inr project_id, w3)"
      and lookup: "get_already_exist_mr_link rt tok project_id current_branch TARGET_BRANCH
               (said [''>>> Check if MR is already oppened...''] w3) = (res, w4)"
      by blast+
    note after = main_after_lookup[OF branch task project lookup run]
    have first: "res = (case ms of [] \<Rightarrow> Inr JNull | m # _ \<Rightarrow> getitem m ''web_url'')"
      if "exchanges w4 = exchanges w3 @ [x] \<and> status (received x) = 200
                   \<and> payload (received x) = Some (JArr ms)" for x ms
      using lookup_result[OF lookup, of x ms] that by (simp add: exchanges_said)
    have none: "filter is_create_mr (added w w') = []" if "res = Inr u \<and> u \<noteq> JNull" for u
      using after(1) that by simp
    from after first none
    have "length (filter is_create_mr (added w w'))
              = (if res = Inr JNull
                    \<and> (\<exists>summary w5 user_id w6.
                          get_task_title rt tok task
                            (said [''No open MR was found. A new one will be created'',
                                   ''>>> Getting task title...''] w4)
                            = (Inr (JStr summary), w5)
                          \<and> get_user_id rt tok
                              (said [task @ summary, ''>>> Creating MR...''] w5)
                            = (Inr user_id, w6))
                 then 1 else 0)
            \<and> (\<forall>x ms. exchanges w4 = exchanges w3 @ [x] \<and> status (received x) = 200
                   \<and> payload (received x) = Some (JArr ms)
                 \<longrightarrow> res = (case ms of [] \<Rightarrow> Inr JNull | m # _ \<Rightarrow> getitem m ''web_url''))
            \<and> (\<forall>u. res = Inr u \<and> u \<noteq> JNull \<longrightarrow>
                 filter is_create_mr (added w w') = []
                 \<and> (r, w') = and_then (link_mr_to_task rt tok task u)
                      (\<lambda>_. print (BLUE @ ''https://'' @ JIRA_HOST @ ''/browse/'' @ task @ NC))
                      (said [''MR already opened:'' @ NL @ BLUE @ py_format rt u @ NC] w4))"
      by blast
  }
  with 1 2 show ?thesis by blast
qed

theorem create_once_iff_no_match_witness:
  "length (filter is_create_mr (added start (snd (main
       (example_runtime ''TCRM-1-x'' ''git@gitlab.com:group/service.git'' creating_server)
       example_tokens start)))) = 1
   \<and> fst (main (example_runtime ''TCRM-1-x'' ''git@gitlab.com:group/service.git''
              creating_server) example_tokens start) = Inr ()
   \<and> filter is_create_mr (added start (snd (main
       (example_runtime ''TCRM-1-x'' ''git@gitlab.com:group/service.git'' matching_server)
       example_tokens start))) = []
   \<and> map (\<lambda>x. rq_method (sent x)) (exchanges (snd (main
       (example_runtime ''TCRM-1-x'' ''git@gitlab.com:group/service.git'' matching_server)
       example_tokens start))) = [''GET'', ''GET'', ''GET'']"
proof -
  let ?rt = "example_runtime ''TCRM-1-x'' ''git@gitlab.com:group/service.git'' creating_server"
  let ?rt' = "example_runtime ''TCRM-1-x'' ''git@gitlab.com:group/service.git'' matching_server"
  let ?url = "''https://gitlab.com/group/service/-/merge_requests/7''"
  note eval = run_defs action_defs creating_server_def matching_server_def created_json_def
    project_service_def said_def str_int_42
  txt \<open>The run that creates the merge request.\<close>
  let ?w1 = "snd (read_branch ?rt start)"
  let ?w2 = "snd (extract_task ''TCRM-1-x'' ?w1)"
  let ?w3 = "snd (resolve_project ?rt example_tokens ?w2)"
  let ?w4 = "snd (get_already_exist_mr_link ?rt example_tokens (JNum 42) ''TCRM-1-x''
      TARGET_BRANCH (said [''>>> Check if MR is already oppened...''] ?w3))"
  let ?w5 = "snd (get_task_title ?rt example_tokens ''TCRM-1''
      (said [''No open MR was found. A new one will be created'',
             ''>>> Getting task title...''] ?w4))"
  let ?w6 = "snd (get_user_id ?rt example_tokens
      (said [''TCRM-1'' @ '' Fix the bug'', ''>>> Creating MR...''] ?w5))"
  have branch: "read_branch ?rt start = (Inr ''TCRM-1-x'', ?w1)"
    by (rule prod_eqI; simp only: fst_conv snd_conv) (simp add: eval)
  have task: "extract_task ''TCRM-1-x'' ?w1 = (Inr ''TCRM-1'', ?w2)"
    by (rule prod_eqI; simp only: fst_conv snd_conv) (simp add: eval)
  have project: "resolve_project ?rt example_tokens ?w2 = (Inr (JNum 42), ?w3)"
    by (rule prod_eqI; simp only: fst_conv snd_conv) (simp add: eval)
  have lookup: "get_already_exist_mr_link ?rt example_tokens (JNum 42) ''TCRM-1-x''
      TARGET_BRANCH (said [''>>> Check if MR is already oppened...''] ?w3) = (Inr JNull, ?w4)"
    by (rule prod_eqI; simp only: fst_conv snd_conv) (simp add: eval)
  have title: "get_task_title ?rt example_tokens ''TCRM-1''
      (said [''No open MR was found. A new one will be created'',
             ''>>> Getting task title...''] ?w4) = (Inr (JStr '' Fix the bug''), ?w5)"
    by (rule prod_eqI; simp only: fst_conv snd_conv) (simp add: eval)
  have user: "get_user_id ?rt example_tokens
      (said [''TCRM-1'' @ '' Fix the bug'', ''>>> Creating MR...''] ?w5) = (Inr (JNum 7), ?w6)"
    by (rule prod_eqI; simp only: fst_conv snd_conv) (simp add: eval)
  have fetched: "Inr JNull = (Inr JNull :: exn + json)
      \<and> (\<exists>summary w5 user_id w6.
            get_task_title ?rt example_tokens ''TCRM-1''
              (said [''No open MR was found. A new one will be created'',
                     ''>>> Getting task title...''] ?w4) = (Inr (JStr summary), w5)
            \<and> get_user_id ?rt example_tokens
                (said [''TCRM-1'' @ summary, ''>>> Creating MR...''] w5) = (Inr user_id, w6))"
    by (intro conjI exI refl) (rule title, rule user)
  from create_once_iff_no_match[where rt = ?rt and tok = example_tokens and w = start,
      OF prod.collapse[symmetric],
      THEN conjunct2, THEN conjunct2, rule_format,
      OF conjI[OF branch conjI[OF task conjI[OF project lookup]]], THEN conjunct1]
  have once: "length (filter is_create_mr (added start (snd (main ?rt example_tokens start))))
      = 1"
    by (simp only: if_P[OF fetched])
  have ended: "fst (main ?rt example_tokens start) = Inr ()"
    by (simp add: eval)
  txt \<open>The run that finds the merge request open.\<close>
  let ?v1 = "snd (read_branch ?rt' start)"
  let ?v2 = "snd (extract_task ''TCRM-1-x'' ?v1)"
  let ?v3 = "snd (resolve_project ?rt' example_tokens ?v2)"
  let ?v4 = "snd (get_already_exist_mr_link ?rt' example_tokens (JNum 42) ''TCRM-1-x''
      TARGET_BRANCH (said [''>>> Check if MR is already oppened...''] ?v3))"
  have branch': "read_branch ?rt' start = (Inr ''TCRM-1-x'', ?v1)"
    by (rule prod_eqI; simp only: fst_conv snd_conv) (simp add: eval)
  have task': "extract_task ''TCRM-1-x'' ?v1 = (Inr ''TCRM-1'', ?v2)"
    by (rule prod_eqI; simp only: fst_conv snd_conv) (simp add: eval)
  have project': "resolve_project ?rt' example_tokens ?v2 = (Inr (JNum 42), ?v3)"
    by (rule prod_eqI; simp only: fst_conv snd_conv) (simp add: eval)
  have lookup': "get_already_exist_mr_link ?rt' example_tokens (JNum 42) ''TCRM-1-x''
      TARGET_BRANCH (said [''>>> Check if MR is already oppened...''] ?v3)
      = (Inr (JStr ?url), ?v4)"
    by (rule prod_eqI; simp only: fst_conv snd_conv) (simp add: eval)
  have match: "Inr (JStr ?url) = (Inr (JStr ?url) :: exn + json) \<and> JStr ?url \<noteq> JNull"
    by simp
  from create_once_iff_no_match[where rt = ?rt' and tok = example_tokens and w = start,
      OF prod.collapse[symmetric],
      THEN conjunct2, THEN conjunct2, rule_format,
      OF conjI[OF branch' conjI[OF task' conjI[OF project' lookup']]],
      THEN conjunct2, THEN conjunct2, rule_format, OF match, THEN conjunct1]
  have never: "filter is_create_mr (added start (snd (main ?rt' example_tokens start))) = []" .
  have gets: "map (\<lambda>x. rq_method (sent x)) (exchanges (snd (main ?rt' example_tokens start)))
      = [''GET'', ''GET'', ''GET'']"
    by (simp add: eval)
  from once ended never gets show ?thesis by blast
qed

text \<open>
  C1 as stated does not hold: in a run whose lookup returns no match and whose tracker
  answers the request for the issue with 404, \<open>create_mr\<close> is not called; the run makes three
  GET requests and no POST.
\<close>

theorem create_skipped_when_title_fetch_fails:
  "fst (get_already_exist_mr_link
          (example_runtime ''TCRM-1-x'' ''git@gitlab.com:group/service.git''
             (scripted [ok_json (JArr [project_service]), ok_json (JArr [])]))
          example_tokens (JNum 42) ''TCRM-1-x'' TARGET_BRANCH
          (snd (resolve_project
             (example_runtime ''TCRM-1-x'' ''git@gitlab.com:group/service.git''
                (scripted [ok_json (JArr [project_service]), ok_json (JArr [])]))
             example_tokens start))) = Inr JNull
   \<and> filter is_create_mr
        (exchanges (snd (script
            (example_runtime ''TCRM-1-x'' ''git@gitlab.com:group/service.git''
               (scripted [ok_json (JArr [project_service]), ok_json (JArr [])]))
            start))) = []
   \<and> map (\<lambda>x. (rq_method (sent x), rq_host (sent x), status (received x)))
        (exchanges (snd (script
            (example_runtime ''TCRM-1-x'' ''git@gitlab.com:group/service.git''
               (scripted [ok_json (JArr [project_service]), ok_json (JArr [])]))
            start)))
       = [(''GET'', ''gitlab.com'', 200), (''GET'', ''gitlab.com'', 200),
          (''GET'', ''jira.atlassian.com'', 404)]"
  by (simp add: run_defs action_defs is_create_mr_def project_service_def str_int_42)

end
